theory Spec2Isabelle
  imports Main "HOL-Library.Sublist"
begin

section \<open>Strings of the host language\<close>

text \<open>
  Source strings are modelled as \<^typ>\<open>string\<close>, so a character is a code unit below 256.
  On that range \<^verbatim>\<open>String.prototype.toLowerCase\<close> moves \<^verbatim>\<open>A-Z\<close> and the Latin-1
  capitals (0xC0 to 0xDE without the multiplication sign 0xD7) up by 32, the regular
  expression class \<^verbatim>\<open>\s\<close> (and \<^verbatim>\<open>trim\<close>) covers tab, line feed, vertical tab, form
  feed, carriage return, space and the no-break space 0xA0, and \<^verbatim>\<open>[a-zA-Z0-9_]\<close> is the
  ASCII word class.
\<close>

definition lower_char :: "char \<Rightarrow> char" where
  "lower_char c = (let n = (of_char c :: nat) in
     if (65 \<le> n \<and> n \<le> 90) \<or> (192 \<le> n \<and> n \<le> 222 \<and> n \<noteq> 215)
     then char_of (n + 32) else c)"

definition toLowerCase :: "string \<Rightarrow> string" where
  "toLowerCase = map lower_char"

definition is_space :: "char \<Rightarrow> bool" where
  "is_space c = (let n = (of_char c :: nat) in (9 \<le> n \<and> n \<le> 13) \<or> n = 32 \<or> n = 160)"

definition is_word :: "char \<Rightarrow> bool" where
  "is_word c = (let n = (of_char c :: nat) in
     (97 \<le> n \<and> n \<le> 122) \<or> (65 \<le> n \<and> n \<le> 90) \<or> (48 \<le> n \<and> n \<le> 57) \<or> n = 95)"

text \<open>\<^verbatim>\<open>s.includes(sub)\<close>: \<open>sub\<close> occurs in \<open>s\<close> as a contiguous run.\<close>

definition str_includes :: "string \<Rightarrow> string \<Rightarrow> bool" where
  "str_includes s sub = sublist sub s"

text \<open>\<^verbatim>\<open>s.trim()\<close>: white space removed at both ends.\<close>

definition trim :: "string \<Rightarrow> string" where
  "trim s = rev (dropWhile is_space (rev (dropWhile is_space s)))"

text \<open>\<^verbatim>\<open>a || b\<close> on strings: the empty string is falsy.\<close>

definition or_else :: "string \<Rightarrow> string \<Rightarrow> string" where
  "or_else a b = (if a = [] then b else a)"

text \<open>
  \<^verbatim>\<open>a || b\<close> where \<open>a\<close> may be \<^verbatim>\<open>undefined\<close> (\<open>None\<close>), as in
  \<^verbatim>\<open>process.env.SHELL || '/bin/zsh'\<close> and \<^verbatim>\<open>e.stdout || ''\<close>.
\<close>

definition opt_or_else :: "string option \<Rightarrow> string \<Rightarrow> string" where
  "opt_or_else a b = (case a of None \<Rightarrow> b | Some s \<Rightarrow> or_else s b)"

text \<open>\<^verbatim>\<open>raw.replace(/"/g, '\\"')\<close>: every double quote becomes backslash, double quote.\<close>

definition escape_quotes :: "string \<Rightarrow> string" where
  "escape_quotes raw = concat (map (\<lambda>c. if c = CHR 0x22 then [CHR 0x5C, CHR 0x22] else [c]) raw)"

text \<open>
  \<^verbatim>\<open>path.join(tempDir, name)\<close> for a file name without separators or dot segments, which
  is what the generated identifier and a matched class name are.
\<close>

definition path_join :: "string \<Rightarrow> string \<Rightarrow> string" where
  "path_join dir name = dir @ ''/'' @ name"

subsection \<open>The pattern \<^verbatim>\<open>/public\s+class\s+([a-zA-Z0-9_]+)/\<close>\<close>

text \<open>
  \<^verbatim>\<open>code.match(re)\<close> without the global flag reports the leftmost match and its first
  group. The quantifiers are greedy; the character that must follow a white-space run is
  never white space and the group takes word characters only, so the greedy reading is
  the only one and the matcher below needs no backtracking (lemmas
  \<open>match_here_complete\<close> and \<open>match_here_sound\<close> relate it to the pattern).
\<close>

definition match_literal :: "string \<Rightarrow> string \<Rightarrow> string option" where
  "match_literal lit s = (if prefix lit s then Some (drop (length lit) s) else None)"

definition match_spaces :: "string \<Rightarrow> string option" where
  "match_spaces s = (if takeWhile is_space s = [] then None else Some (dropWhile is_space s))"

definition match_here :: "string \<Rightarrow> string option" where
  "match_here s =
     (case match_literal ''public'' s of None \<Rightarrow> None | Some s1 \<Rightarrow>
      case match_spaces s1 of None \<Rightarrow> None | Some s2 \<Rightarrow>
      case match_literal ''class'' s2 of None \<Rightarrow> None | Some s3 \<Rightarrow>
      case match_spaces s3 of None \<Rightarrow> None | Some s4 \<Rightarrow>
      (if takeWhile is_word s4 = [] then None else Some (takeWhile is_word s4)))"

fun class_name_match :: "string \<Rightarrow> string option" where
  "class_name_match [] = None"
| "class_name_match (c # cs) =
     (case match_here (c # cs) of Some n \<Rightarrow> Some n | None \<Rightarrow> class_name_match cs)"

section \<open>Data model\<close>

record CodeExecutionResult =
  stdout :: string
  stderr :: string
  error :: "string option"
  command :: string

record DetectedLanguage =
  name :: string
  "value" :: string
  executablePath :: string

text \<open>How a child process started by \<^verbatim>\<open>child_process.exec\<close> ended.\<close>

datatype ending = Exited nat | Signalled | NotStarted

text \<open>
  A finished call of \<^verbatim>\<open>exec\<close>: how the child ended, and the three arguments of the
  callback. \<open>cb_error\<close> is the text of the error argument, \<open>None\<close> for \<^verbatim>\<open>null\<close>;
  \<open>out\<close> and \<open>err\<close> are the \<^verbatim>\<open>stdout\<close> and \<^verbatim>\<open>stderr\<close> arguments, the output that
  \<^verbatim>\<open>exec\<close> captured. The engine sees the three arguments only, never the exit status:
  \<^verbatim>\<open>exec\<close> passes an error for a non-zero status, a kill or a failed spawn, and also
  when the output exceeds its buffer, whatever status the child then ends with.
\<close>

record child =
  ended :: ending
  cb_error :: "string option"
  out :: string
  err :: string

text \<open>The calls the engine makes on the file system and the process table, in order.\<close>

datatype call =
    ExistsSync string
  | MkdirSync string
  | WriteFileSync string string
  | Exec string
  | UnlinkSync string
  | ReaddirSync string
  | RmdirSync string

text \<open>
  The scratch directory on disk: whether it exists and the paths of its entries, with
  the calls made so far.
\<close>

record world =
  dir_exists :: bool
  files :: "string set"
  calls :: "call list"

text \<open>
  What the host decides: the location of the scratch directory (from \<^verbatim>\<open>__dirname\<close>),
  \<^verbatim>\<open>process.env.SHELL\<close>, the identifier \<^verbatim>\<open>uuidv4()\<close> returns, which file system calls
  throw (with the text of the exception), and what a spawned command does: what
  \<^verbatim>\<open>exec\<close> reports and the scratch directory the command leaves, or \<open>None\<close> when the
  callback of \<^verbatim>\<open>exec\<close> is never called (a child that survives the one signal of the
  timeout and does not end). A probe of the detector is a process without effect on the
  scratch directory.
\<close>

record host =
  tempDir :: string
  SHELL :: "string option"
  uuidv4 :: string
  mkdirSync_throws :: "string option"
  writeFileSync_throws :: "string option"
  unlinkSync_throws :: "string \<Rightarrow> bool"
  readdirSync_throws :: bool
  rmdirSync_throws :: bool
  exec_run :: "string \<Rightarrow> bool \<times> string set \<Rightarrow> (child \<times> bool \<times> string set) option"
  exec_probe :: "string \<Rightarrow> child"

definition record_call :: "call \<Rightarrow> world \<Rightarrow> world" where
  "record_call c w = w\<lparr>calls := calls w @ [c]\<rparr>"

text \<open>The commands spawned and the files written among a list of calls.\<close>

fun exec_commands :: "call list \<Rightarrow> string list" where
  "exec_commands [] = []"
| "exec_commands (Exec c # cs) = c # exec_commands cs"
| "exec_commands (_ # cs) = exec_commands cs"

fun written_files :: "call list \<Rightarrow> (string \<times> string) list" where
  "written_files [] = []"
| "written_files (WriteFileSync f s # cs) = (f, s) # written_files cs"
| "written_files (_ # cs) = written_files cs"

section \<open>The toolchain detector\<close>

definition defaultShellPath :: "host \<Rightarrow> string" where
  "defaultShellPath h = opt_or_else (SHELL h) ''/bin/zsh''"

text \<open>The command line of the probe for a tool.\<close>

definition which_command :: "host \<Rightarrow> string \<Rightarrow> string" where
  "which_command h cmd = defaultShellPath h @ '' -l -c '' @ [CHR 0x22] @ ''which '' @ cmd @ [CHR 0x22]"

text \<open>
  \<^verbatim>\<open>findExecutable\<close>: \<^verbatim>\<open>if (error || stderr) resolve(null) else resolve(stdout.trim())\<close>.
\<close>

definition findExecutable :: "host \<Rightarrow> string \<Rightarrow> string option" where
  "findExecutable h cmd =
     (let c = exec_probe h (which_command h cmd)
      in if cb_error c \<noteq> None \<or> err c \<noteq> [] then None else Some (trim (out c)))"

definition languageChecks :: "(string \<times> string \<times> string) list" where
  "languageChecks =
     [(''JavaScript'', ''javascript'', ''node''),
      (''Python'', ''python'', ''python3''),
      (''Go'', ''go'', ''go'')]"

text \<open>
  The loop of \<^verbatim>\<open>detectInstalledLanguages\<close>; \<^verbatim>\<open>if (executablePath)\<close> rejects
  \<^verbatim>\<open>null\<close> and the empty string.
\<close>

fun detect_loop :: "host \<Rightarrow> (string \<times> string \<times> string) list \<Rightarrow> DetectedLanguage list" where
  "detect_loop h [] = []"
| "detect_loop h ((n, v, cmd) # rest) =
     (case findExecutable h cmd of
        None \<Rightarrow> detect_loop h rest
      | Some p \<Rightarrow>
          if p = [] then detect_loop h rest
          else \<lparr>name = n, value = v, executablePath = p\<rparr> # detect_loop h rest)"

definition detectInstalledLanguages :: "host \<Rightarrow> DetectedLanguage list" where
  "detectInstalledLanguages h = detect_loop h languageChecks"

section \<open>The execution engine\<close>

text \<open>What the \<^verbatim>\<open>switch\<close> of \<^verbatim>\<open>runCode\<close> assigns for a supported language.\<close>

record plan =
  filePath :: string
  rawCommand :: string
  cleanupFiles :: "string list"
  executableCommand :: string

text \<open>
  The \<^verbatim>\<open>switch (language.toLowerCase())\<close>: \<open>Inl\<close> is an early \<^verbatim>\<open>return\<close> of a result,
  \<open>Inr\<close> the variables a supported language leaves for the rest of the function.
\<close>

definition switch_language :: "host \<Rightarrow> string \<Rightarrow> string \<Rightarrow> CodeExecutionResult + plan" where
  "switch_language h language code =
     (let l = toLowerCase language; dir = tempDir h; uniqueId = uuidv4 h in
      if l = ''javascript'' then
        (let fp = path_join dir (uniqueId @ ''.js'') in
         Inr \<lparr>filePath = fp, rawCommand = ''node '' @ fp, cleanupFiles = [fp],
              executableCommand = ''node''\<rparr>)
      else if l = ''python'' then
        (let fp = path_join dir (uniqueId @ ''.py'') in
         Inr \<lparr>filePath = fp, rawCommand = ''python3 '' @ fp, cleanupFiles = [fp],
              executableCommand = ''python3''\<rparr>)
      else if l = ''go'' then
        (let fp = path_join dir (uniqueId @ ''.go''); goExecPath = path_join dir uniqueId in
         Inr \<lparr>filePath = fp,
              rawCommand = ''go build -o '' @ goExecPath @ '' '' @ fp @ '' && '' @ goExecPath,
              cleanupFiles = [fp, goExecPath], executableCommand = ''go''\<rparr>)
      else if l = ''java'' then
        (case class_name_match code of
           None \<Rightarrow>
             Inl \<lparr>stdout = [], stderr = [],
                  error = Some ''Java code must contain a public class definition (e.g., public class Main).'',
                  command = []\<rparr>
         | Some className \<Rightarrow>
             (let fp = path_join dir (className @ ''.java'') in
              Inr \<lparr>filePath = fp,
                   rawCommand = ''javac '' @ fp @ '' -d '' @ dir @ '' && java -cp '' @ dir @ '' '' @ className,
                   cleanupFiles = [fp, path_join dir (className @ ''.class'')],
                   executableCommand = ''java''\<rparr>))
      else
        Inl \<lparr>stdout = [], stderr = [], error = Some (''Unsupported language: '' @ language),
             command = []\<rparr>)"

text \<open>The command line handed to \<^verbatim>\<open>exec\<close>.\<close>

definition commandToExecute :: "host \<Rightarrow> string \<Rightarrow> string" where
  "commandToExecute h raw =
     defaultShellPath h @ '' -l -c '' @ [CHR 0x22] @ escape_quotes raw @ [CHR 0x22]"

text \<open>
  The text that replaces a failure message containing \<^verbatim>\<open>command not found\<close>: a template
  literal over three source lines, so it holds the line breaks and the indentation of
  the source (24 spaces) next to its two \<^verbatim>\<open>\n\<close> escapes.
\<close>

definition guidance :: "string \<Rightarrow> string" where
  "guidance exe =
     ''Error: '' @ [CHR 0x27] @ exe @ [CHR 0x27] @ '' command not found. Please ensure ''
       @ [CHR 0x27] @ exe @ [CHR 0x27] @ '' is installed and accessible in your system's PATH.''
       @ [CHR 0x0A] @ replicate 24 CHR '' '' @ [CHR 0x0A]
       @ ''If it is installed, try running '' @ [CHR 0x27] @ ''which '' @ exe @ [CHR 0x27]
       @ '' in your terminal to find its path.''
       @ [CHR 0x0A] @ replicate 24 CHR '' '' @ [CHR 0x0A]
       @ ''Then, consider adding its directory to your shell's PATH (e.g., in ~/.zshrc or ~/.bashrc) and restarting Raycast.''"

text \<open>The \<^verbatim>\<open>errorMessage\<close> computed in the callback of \<^verbatim>\<open>exec\<close>.\<close>

definition errorMessage :: "string \<Rightarrow> string \<Rightarrow> string" where
  "errorMessage exe msg = (if str_includes msg ''command not found'' then guidance exe else msg)"

text \<open>
  The value that reaches the \<^verbatim>\<open>catch\<close> clause: an exception of \<^verbatim>\<open>fs\<close> has a
  \<^verbatim>\<open>message\<close> only, the object the promise is rejected with has \<^verbatim>\<open>stdout\<close>,
  \<^verbatim>\<open>stderr\<close> and \<^verbatim>\<open>error\<close> (and a \<^verbatim>\<open>command\<close> the clause does not read).
\<close>

record caught =
  e_stdout :: "string option"
  e_stderr :: "string option"
  e_error :: "string option"
  e_message :: "string option"

definition catch_clause :: "caught \<Rightarrow> CodeExecutionResult" where
  "catch_clause e =
     \<lparr>stdout = opt_or_else (e_stdout e) [],
      stderr = opt_or_else (e_stderr e) [],
      error = Some (opt_or_else (e_error e) (opt_or_else (e_message e) ''Unknown error during execution'')),
      command = []\<rparr>"

text \<open>
  The \<^verbatim>\<open>try\<close> block with its \<^verbatim>\<open>catch\<close> clause. The result is \<open>None\<close> when the
  promise around \<^verbatim>\<open>exec\<close> is never settled: the \<^verbatim>\<open>await\<close> does not resume, and
  neither the \<^verbatim>\<open>catch\<close> nor the \<^verbatim>\<open>finally\<close> clause runs.
\<close>

definition try_catch :: "host \<Rightarrow> plan \<Rightarrow> string \<Rightarrow> world \<Rightarrow> CodeExecutionResult option \<times> world" where
  "try_catch h p code w =
     (let w1 = record_call (WriteFileSync (filePath p) code) w in
      case writeFileSync_throws h of
        Some m \<Rightarrow>
          (Some (catch_clause \<lparr>e_stdout = None, e_stderr = None, e_error = None,
                               e_message = Some m\<rparr>), w1)
      | None \<Rightarrow>
          (let w2 = w1\<lparr>files := insert (filePath p) (files w1)\<rparr>;
               cmd = commandToExecute h (rawCommand p);
               w3 = record_call (Exec cmd) w2
           in case exec_run h cmd (dir_exists w2, files w2) of
                None \<Rightarrow> (None, w3)
              | Some r \<Rightarrow>
                  (let c = fst r;
                       w4 = w3\<lparr>dir_exists := fst (snd r), files := snd (snd r)\<rparr>
                   in case cb_error c of
                        None \<Rightarrow>
                          (Some \<lparr>stdout = out c, stderr = err c, error = None, command = cmd\<rparr>, w4)
                      | Some m \<Rightarrow>
                          (Some (catch_clause
                                   \<lparr>e_stdout = Some (out c), e_stderr = Some (err c),
                                    e_error = Some (errorMessage (executableCommand p) m),
                                    e_message = None\<rparr>), w4))))"

text \<open>
  The \<^verbatim>\<open>finally\<close> clause: each tracked file that exists is unlinked, an exception of
  \<^verbatim>\<open>unlinkSync\<close> is logged and dropped; then the directory is removed when
  \<^verbatim>\<open>readdirSync\<close> finds it empty. An exception of \<^verbatim>\<open>readdirSync\<close> (the directory is
  missing, or the call fails for another reason) skips \<^verbatim>\<open>rmdirSync\<close>, and an exception
  of either call is dropped.
\<close>

definition unlink_one :: "host \<Rightarrow> string \<Rightarrow> world \<Rightarrow> world" where
  "unlink_one h f w =
     (let w1 = record_call (ExistsSync f) w in
      if f \<in> files w1 then
        (let w2 = record_call (UnlinkSync f) w1 in
         if unlinkSync_throws h f then w2 else w2\<lparr>files := files w2 - {f}\<rparr>)
      else w1)"

fun unlink_all :: "host \<Rightarrow> string list \<Rightarrow> world \<Rightarrow> world" where
  "unlink_all h [] w = w"
| "unlink_all h (f # fs) w = unlink_all h fs (unlink_one h f w)"

definition remove_dir_if_empty :: "host \<Rightarrow> world \<Rightarrow> world" where
  "remove_dir_if_empty h w =
     (let w1 = record_call (ReaddirSync (tempDir h)) w in
      if \<not> dir_exists w1 \<or> readdirSync_throws h then w1
      else if files w1 = {} then
        (let w2 = record_call (RmdirSync (tempDir h)) w1 in
         if rmdirSync_throws h then w2 else w2\<lparr>dir_exists := False\<rparr>)
      else w1)"

definition finally_clause :: "host \<Rightarrow> plan \<Rightarrow> world \<Rightarrow> world" where
  "finally_clause h p w = remove_dir_if_empty h (unlink_all h (cleanupFiles p) w)"

text \<open>
  The head of \<^verbatim>\<open>runCode\<close>, before the \<^verbatim>\<open>switch\<close> and outside the \<^verbatim>\<open>try\<close>:
  \<^verbatim>\<open>if (!fs.existsSync(tempDir)) fs.mkdirSync(tempDir, { recursive: true })\<close>.
  \<open>Inl\<close> is the exception of \<^verbatim>\<open>mkdirSync\<close>.
\<close>

definition ensure_temp_dir :: "host \<Rightarrow> world \<Rightarrow> string + world" where
  "ensure_temp_dir h w =
     (let w1 = record_call (ExistsSync (tempDir h)) w in
      if dir_exists w1 then Inr w1
      else case mkdirSync_throws h of
             Some m \<Rightarrow> Inl m
           | None \<Rightarrow> Inr ((record_call (MkdirSync (tempDir h)) w1)\<lparr>dir_exists := True\<rparr>))"

text \<open>
  What becomes of a call of \<^verbatim>\<open>runCode\<close>: an exception leaves the function (the promise
  is rejected), or it resolves with a result, or it is never settled; with the world
  the call has reached.
\<close>

datatype outcome = Throws string | Returns CodeExecutionResult world | Hangs world

fun returned_result :: "outcome \<Rightarrow> CodeExecutionResult option" where
  "returned_result (Returns r w) = Some r"
| "returned_result (Throws m) = None"
| "returned_result (Hangs w) = None"

fun returned_world :: "outcome \<Rightarrow> world option" where
  "returned_world (Returns r w) = Some w"
| "returned_world (Throws m) = None"
| "returned_world (Hangs w) = None"

fun world_of :: "outcome \<Rightarrow> world option" where
  "world_of (Returns r w) = Some w"
| "world_of (Hangs w) = Some w"
| "world_of (Throws m) = None"

text \<open>\<^verbatim>\<open>runCode(language, code)\<close>.\<close>

definition runCode :: "host \<Rightarrow> string \<Rightarrow> string \<Rightarrow> world \<Rightarrow> outcome" where
  "runCode h language code w =
     (case ensure_temp_dir h w of
        Inl m \<Rightarrow> Throws m
      | Inr w1 \<Rightarrow>
          (case switch_language h language code of
             Inl r \<Rightarrow> Returns r w1
           | Inr p \<Rightarrow>
               (let rw = try_catch h p code w1
                in case fst rw of
                     None \<Rightarrow> Hangs (snd rw)
                   | Some r \<Rightarrow> Returns r (finally_clause h p (snd rw)))))"

section \<open>Predicates of the statements\<close>

text \<open>
  The shape of what \<^verbatim>\<open>uuidv4()\<close> returns: 36 characters, lower-case hexadecimal digits
  and dashes.
\<close>

definition uuid_shaped :: "string \<Rightarrow> bool" where
  "uuid_shaped s = (length s = 36 \<and> list_all (\<lambda>c. c \<in> set ''0123456789abcdef-'') s)"

text \<open>
  The pattern as a relation, for comparison with the matcher: \<open>s\<close> starts with
  \<^verbatim>\<open>public\<close>, white space, \<^verbatim>\<open>class\<close>, white space and the word \<open>n\<close>; and the pattern
  matches somewhere in \<open>code\<close>.
\<close>

definition pattern_at :: "string \<Rightarrow> string \<Rightarrow> bool" where
  "pattern_at s n =
     (\<exists>ws1 ws2 rest. s = ''public'' @ ws1 @ ''class'' @ ws2 @ n @ rest
        \<and> ws1 \<noteq> [] \<and> list_all is_space ws1 \<and> ws2 \<noteq> [] \<and> list_all is_space ws2
        \<and> n \<noteq> [] \<and> list_all is_word n)"

definition pattern_occurs :: "string \<Rightarrow> bool" where
  "pattern_occurs code = (\<exists>pre s n. code = pre @ s \<and> pattern_at s n)"

text \<open>The result of the early \<^verbatim>\<open>return\<close> in the Java branch.\<close>

definition java_error :: CodeExecutionResult where
  "java_error =
     \<lparr>stdout = [], stderr = [],
      error = Some ''Java code must contain a public class definition (e.g., public class Main).'',
      command = []\<rparr>"

section \<open>Example hosts and inputs\<close>

text \<open>
  A host on which everything succeeds: \<^verbatim>\<open>SHELL\<close> is bash, every file system call
  succeeds, and a spawned command prints a line, leaves the directory as it found it and
  exits with status zero.
\<close>

definition bash_host :: host where
  "bash_host =
     \<lparr>tempDir = ''/ext/temp'', SHELL = Some ''/bin/bash'',
      uuidv4 = ''3f2b8c1e-5a4d-4e6f-9a7b-1c2d3e4f5a6b'',
      mkdirSync_throws = None, writeFileSync_throws = None,
      unlinkSync_throws = (\<lambda>f. False), readdirSync_throws = False, rmdirSync_throws = False,
      exec_run = (\<lambda>cmd d. Some (\<lparr>ended = Exited 0, cb_error = None, out = ''hi'', err = []\<rparr>, d)),
      exec_probe = (\<lambda>cmd. \<lparr>ended = Exited 0, cb_error = None, out = ''/usr/bin/tool'', err = []\<rparr>)\<rparr>"


text \<open>The same host when the scratch directory cannot be created.\<close>

definition readonly_host :: host where
  "readonly_host = bash_host\<lparr>mkdirSync_throws := Some ''EACCES: permission denied, mkdir''\<rparr>"

text \<open>The same host when the source file cannot be written.\<close>

definition full_host :: host where
  "full_host = bash_host\<lparr>writeFileSync_throws := Some ''ENOSPC: no space left on device, write''\<rparr>"

text \<open>
  The same host when the program fails: some output, then exit status 1, reported by
  \<^verbatim>\<open>exec\<close> as \<^verbatim>\<open>Command failed: \<close>, the command, a line break and the error output.
\<close>

definition crash_host :: host where
  "crash_host = bash_host\<lparr>exec_run :=
     (\<lambda>cmd d. Some (\<lparr>ended = Exited 1,
                 cb_error = Some (''Command failed: '' @ cmd @ [CHR 0x0A] @ ''Traceback (most recent call last)''),
                 out = ''partial'', err = ''Traceback (most recent call last)''\<rparr>, d))\<rparr>"


text \<open>
  The same host when the program ignores the signal of the timeout and never ends: the
  callback of \<^verbatim>\<open>exec\<close> is not called.
\<close>

definition stuck_host :: host where
  "stuck_host = bash_host\<lparr>exec_run := (\<lambda>cmd d. None)\<rparr>"

text \<open>
  A host whose shell is zsh and on which \<^verbatim>\<open>java\<close> is installed and \<^verbatim>\<open>javac\<close> is not:
  the compile step fails, the shell says so on standard error and exits with 127.
\<close>

definition no_javac_host :: host where
  "no_javac_host = bash_host\<lparr>SHELL := Some ''/bin/zsh'', exec_run :=
     (\<lambda>cmd d. Some (\<lparr>ended = Exited 127,
                 cb_error = Some (''Command failed: '' @ cmd @ [CHR 0x0A]
                                   @ ''zsh:1: command not found: javac'' @ [CHR 0x0A]),
                 out = [], err = ''zsh:1: command not found: javac'' @ [CHR 0x0A]\<rparr>, d))\<rparr>"

text \<open>A scratch directory that does not exist yet, and one that exists and is empty.\<close>

definition no_dir :: world where
  "no_dir = \<lparr>dir_exists = False, files = {}, calls = []\<rparr>"

definition empty_dir :: world where
  "empty_dir = \<lparr>dir_exists = True, files = {}, calls = []\<rparr>"

text \<open>The plans of the \<^verbatim>\<open>switch\<close> for Python and Go on these hosts.\<close>

definition python_plan :: plan where
  "python_plan =
     \<lparr>filePath = ''/ext/temp/3f2b8c1e-5a4d-4e6f-9a7b-1c2d3e4f5a6b.py'',
      rawCommand = ''python3 /ext/temp/3f2b8c1e-5a4d-4e6f-9a7b-1c2d3e4f5a6b.py'',
      cleanupFiles = [''/ext/temp/3f2b8c1e-5a4d-4e6f-9a7b-1c2d3e4f5a6b.py''],
      executableCommand = ''python3''\<rparr>"

definition go_plan :: plan where
  "go_plan =
     \<lparr>filePath = ''/ext/temp/3f2b8c1e-5a4d-4e6f-9a7b-1c2d3e4f5a6b.go'',
      rawCommand = ''go build -o /ext/temp/3f2b8c1e-5a4d-4e6f-9a7b-1c2d3e4f5a6b /ext/temp/3f2b8c1e-5a4d-4e6f-9a7b-1c2d3e4f5a6b.go && /ext/temp/3f2b8c1e-5a4d-4e6f-9a7b-1c2d3e4f5a6b'',
      cleanupFiles = [''/ext/temp/3f2b8c1e-5a4d-4e6f-9a7b-1c2d3e4f5a6b.go'',
                      ''/ext/temp/3f2b8c1e-5a4d-4e6f-9a7b-1c2d3e4f5a6b''],
      executableCommand = ''go''\<rparr>"

text \<open>The plan of the \<^verbatim>\<open>switch\<close> for a Java source that declares \<^verbatim>\<open>Main\<close>.\<close>

definition java_plan :: plan where
  "java_plan =
     \<lparr>filePath = ''/ext/temp/Main.java'',
      rawCommand = ''javac /ext/temp/Main.java -d /ext/temp && java -cp /ext/temp Main'',
      cleanupFiles = [''/ext/temp/Main.java'', ''/ext/temp/Main.class''],
      executableCommand = ''java''\<rparr>"

text \<open>A second host for a concurrent call: the same directory, another identifier.\<close>

definition other_host :: host where
  "other_host = bash_host\<lparr>uuidv4 := ''9c858901-8a57-4791-81fe-4c455b099bc9''\<rparr>"

text \<open>
  A host whose login shell leaves before it runs the command (a startup file that
  exits with status zero): every probe ends without error and prints nothing.
\<close>

definition early_exit_host :: host where
  "early_exit_host = bash_host\<lparr>exec_probe :=
     (\<lambda>cmd. \<lparr>ended = Exited 0, cb_error = None, out = [], err = []\<rparr>)\<rparr>"

text \<open>
  A host with Node and Go installed and no Python, whose startup files print a warning
  on standard error when the shell is started for Go.
\<close>

definition mixed_host :: host where
  "mixed_host = bash_host\<lparr>exec_probe :=
     (\<lambda>cmd. if cmd = ''/bin/bash -l -c '' @ [CHR 0x22] @ ''which node'' @ [CHR 0x22]
             then \<lparr>ended = Exited 0, cb_error = None, out = ''/usr/local/bin/node'' @ [CHR 0x0A], err = []\<rparr>
           else if cmd = ''/bin/bash -l -c '' @ [CHR 0x22] @ ''which go'' @ [CHR 0x22]
             then \<lparr>ended = Exited 0, cb_error = None, out = ''/usr/local/go/bin/go'' @ [CHR 0x0A],
                   err = ''warning: locale not set''\<rparr>
           else \<lparr>ended = Exited 1, cb_error = Some (''Command failed: '' @ cmd @ [CHR 0x0A]),
                 out = [], err = []\<rparr>)\<rparr>"

section \<open>Properties of the string operations\<close>

lemma lower_char_idem: "lower_char (lower_char c) = lower_char c"
proof -
  let ?n = "of_char c :: nat"
  show ?thesis
  proof (cases "(65 \<le> ?n \<and> ?n \<le> 90) \<or> (192 \<le> ?n \<and> ?n \<le> 222 \<and> ?n \<noteq> 215)")
    case True
    then have "(of_char (char_of (?n + 32)) :: nat) = ?n + 32"
      by (auto simp: of_char_of)
    with True show ?thesis
      by (auto simp: lower_char_def Let_def)
  next
    case False
    then show ?thesis by (auto simp: lower_char_def Let_def)
  qed
qed

lemma toLowerCase_idem: "toLowerCase (toLowerCase s) = toLowerCase s"
  by (simp add: toLowerCase_def lower_char_idem)

lemma lower_javascript: "toLowerCase ''javascript'' = ''javascript''"
  by code_simp

lemma lower_python: "toLowerCase ''python'' = ''python''"
  by code_simp

lemma lower_go: "toLowerCase ''go'' = ''go''"
  by code_simp

lemma lower_java: "toLowerCase ''java'' = ''java''"
  by code_simp

lemma lower_ruby: "toLowerCase ''Ruby'' = ''ruby''"
  by code_simp

lemma lower_Python: "toLowerCase ''PyThOn'' = ''python''"
  by code_simp

lemma lower_Java: "toLowerCase ''Java'' = ''java''"
  by code_simp

lemma or_else_empty [simp]: "or_else s [] = s"
  by (simp add: or_else_def)

lemma str_includes_context:
  assumes "str_includes s sub"
  shows "str_includes (pre @ s @ post) sub"
proof -
  from assms obtain a b where "s = a @ sub @ b"
    unfolding str_includes_def sublist_def by blast
  then have "pre @ s @ post = (pre @ a) @ sub @ (b @ post)" by simp
  then show ?thesis unfolding str_includes_def sublist_def by blast
qed

lemma str_includes_self: "str_includes s s"
  by (simp add: str_includes_def)


lemma escape_quotes_preceded:
  "i < length (escape_quotes s) \<Longrightarrow> escape_quotes s ! i = CHR 0x22 \<Longrightarrow>
     0 < i \<and> escape_quotes s ! (i - 1) = CHR 0x5C"
proof (induction s arbitrary: i)
  case Nil
  then show ?case by (simp add: escape_quotes_def)
next
  case (Cons c s)
  have step: "escape_quotes (c # s) = (if c = CHR 0x22 then [CHR 0x5C, CHR 0x22] else [c]) @ escape_quotes s"
    by (simp add: escape_quotes_def)
  show ?case
  proof (cases "c = CHR 0x22")
    case True
    with step have e: "escape_quotes (c # s) = CHR 0x5C # CHR 0x22 # escape_quotes s" by simp
    show ?thesis
    proof (cases "i < 2")
      case True
      with Cons.prems e show ?thesis by (cases i) auto
    next
      case False
      then obtain j where j: "i = Suc (Suc j)" by (metis Suc_lessI less_2_cases_iff not_less_eq zero_less_Suc old.nat.exhaust)
      with Cons.prems e have "j < length (escape_quotes s)" "escape_quotes s ! j = CHR 0x22" by auto
      from Cons.IH [OF this] j e show ?thesis by (cases j) auto
    qed
  next
    case False
    with step have e: "escape_quotes (c # s) = c # escape_quotes s" by simp
    show ?thesis
    proof (cases i)
      case 0
      with Cons.prems e False show ?thesis by simp
    next
      case (Suc j)
      with Cons.prems e have "j < length (escape_quotes s)" "escape_quotes s ! j = CHR 0x22" by auto
      from Cons.IH [OF this] Suc e show ?thesis by (cases j) auto
    qed
  qed
qed

lemma escape_quotes_only_adds_backslashes:
  "filter (\<lambda>c. c \<noteq> CHR 0x5C) (escape_quotes s) = filter (\<lambda>c. c \<noteq> CHR 0x5C) s"
  by (induction s) (auto simp: escape_quotes_def)

section \<open>The class name pattern\<close>

lemma not_space_c: "\<not> is_space CHR ''c''"
  by (simp add: is_space_def)

lemma match_literal_append: "match_literal lit (lit @ s) = Some s"
  by (simp add: match_literal_def)

lemma match_literal_Some: "match_literal lit s = Some t \<Longrightarrow> s = lit @ t"
  by (auto simp: match_literal_def prefix_def split: if_splits)

lemma match_spaces_append:
  assumes "ws \<noteq> []" and "list_all is_space ws" and "t = [] \<or> \<not> is_space (hd t)"
  shows "match_spaces (ws @ t) = Some t"
proof -
  from assms(2) have all: "\<And>x. x \<in> set ws \<Longrightarrow> is_space x"
    by (simp add: list_all_iff)
  from assms(3) have t1: "takeWhile is_space t = []" and t2: "dropWhile is_space t = t"
    by (cases t; simp)+
  from all t1 t2 assms(1) show ?thesis
    by (simp add: match_spaces_def takeWhile_append2 dropWhile_append2)
qed

lemma match_spaces_Some:
  assumes "match_spaces s = Some t"
  shows "\<exists>ws. s = ws @ t \<and> ws \<noteq> [] \<and> list_all is_space ws"
proof -
  from assms have "takeWhile is_space s \<noteq> []" and "t = dropWhile is_space s"
    by (auto simp: match_spaces_def split: if_splits)
  moreover have "s = takeWhile is_space s @ dropWhile is_space s" by simp
  moreover have "list_all is_space (takeWhile is_space s)"
    by (simp add: list_all_iff) (meson set_takeWhileD)
  ultimately show ?thesis by metis
qed

text \<open>
  Soundness: what \<open>match_here\<close> reports is a match of the pattern at the start of the
  string, and the group is the longest run of word characters there.
\<close>

lemma match_here_sound:
  assumes "match_here s = Some n"
  shows "\<exists>ws1 ws2 rest. s = ''public'' @ ws1 @ ''class'' @ ws2 @ n @ rest
     \<and> ws1 \<noteq> [] \<and> list_all is_space ws1 \<and> ws2 \<noteq> [] \<and> list_all is_space ws2
     \<and> n \<noteq> [] \<and> list_all is_word n \<and> (rest = [] \<or> \<not> is_word (hd rest))"
proof -
  from assms obtain s1 s2 s3 s4 where
    a: "match_literal ''public'' s = Some s1" and b: "match_spaces s1 = Some s2" and
    c: "match_literal ''class'' s2 = Some s3" and d: "match_spaces s3 = Some s4" and
    e: "takeWhile is_word s4 \<noteq> []" and f: "n = takeWhile is_word s4"
    by (auto simp: match_here_def split: option.splits if_splits)
  from match_spaces_Some [OF b] obtain ws1 where
    w1: "s1 = ws1 @ s2" "ws1 \<noteq> []" "list_all is_space ws1" by blast
  from match_spaces_Some [OF d] obtain ws2 where
    w2: "s3 = ws2 @ s4" "ws2 \<noteq> []" "list_all is_space ws2" by blast
  have s4: "s4 = n @ dropWhile is_word s4" using f by simp
  have nw: "list_all is_word n"
    unfolding f by (simp add: list_all_iff) (meson set_takeWhileD)
  have rest: "dropWhile is_word s4 = [] \<or> \<not> is_word (hd (dropWhile is_word s4))"
    by (metis hd_dropWhile)
  from match_literal_Some [OF a] match_literal_Some [OF c] w1(1) w2(1) s4
  have "s = ''public'' @ ws1 @ ''class'' @ ws2 @ n @ dropWhile is_word s4"
    by (metis append_assoc)
  with w1(2,3) w2(2,3) e f nw rest show ?thesis by blast
qed

text \<open>
  Completeness: wherever the pattern matches at the start of the string, under any
  reading of its quantifiers, \<open>match_here\<close> reports a match.
\<close>

lemma match_here_complete:
  assumes "s = ''public'' @ ws1 @ ''class'' @ ws2 @ n @ rest"
      and "ws1 \<noteq> []" and "list_all is_space ws1" and "ws2 \<noteq> []" and "list_all is_space ws2"
      and "n \<noteq> []" and "list_all is_word n"
  shows "match_here s = Some (takeWhile is_word (n @ rest)) \<and> takeWhile is_word (n @ rest) \<noteq> []"
proof -
  have a: "match_literal ''public'' s = Some (ws1 @ ''class'' @ ws2 @ n @ rest)"
    unfolding assms(1) by (rule match_literal_append)
  have b: "match_spaces (ws1 @ ''class'' @ ws2 @ n @ rest) = Some (''class'' @ ws2 @ n @ rest)"
    by (rule match_spaces_append [OF assms(2,3)]) (simp add: not_space_c)
  have c: "match_literal ''class'' (''class'' @ ws2 @ n @ rest) = Some (ws2 @ n @ rest)"
    by (rule match_literal_append)
  from assms(6,7) have hn: "is_word (hd n)"
    by (cases n) simp_all
  have sw: "\<not> (is_space x \<and> is_word x)" for x
    by (auto simp: is_space_def is_word_def Let_def)
  from assms(6) hn sw have "n @ rest = [] \<or> \<not> is_space (hd (n @ rest))"
    by (cases n) auto
  from match_spaces_append [OF assms(4,5) this]
  have d: "match_spaces (ws2 @ n @ rest) = Some (n @ rest)" .
  from assms(6) hn have e: "takeWhile is_word (n @ rest) \<noteq> []"
    by (cases n) auto
  from a b c d e show ?thesis
    by (simp add: match_here_def)
qed

lemma class_name_match_Some:
  assumes "class_name_match code = Some n"
  shows "\<exists>pre s. code = pre @ s \<and> match_here s = Some n"
  using assms
proof (induction code)
  case Nil
  then show ?case by simp
next
  case (Cons c cs)
  show ?case
  proof (cases "match_here (c # cs)")
    case None
    with Cons.prems have "class_name_match cs = Some n" by simp
    from Cons.IH [OF this] obtain pre s where "cs = pre @ s" "match_here s = Some n" by blast
    then have "c # cs = (c # pre) @ s \<and> match_here s = Some n" by simp
    then show ?thesis by blast
  next
    case (Some m)
    with Cons.prems have "m = n" by simp
    with Some have "c # cs = [] @ (c # cs) \<and> match_here (c # cs) = Some n" by simp
    then show ?thesis by blast
  qed
qed

lemma match_here_Nil: "match_here [] = None"
  by (simp add: match_here_def match_literal_def)

lemma class_name_match_None:
  assumes "class_name_match code = None" and "code = pre @ s"
  shows "match_here s = None"
  using assms
proof (induction code arbitrary: pre)
  case Nil
  then show ?case by (simp add: match_here_Nil)
next
  case (Cons c cs)
  from Cons.prems(1) have here: "match_here (c # cs) = None" and tl: "class_name_match cs = None"
    by (auto split: option.splits)
  show ?case
  proof (cases pre)
    case Nil
    with Cons.prems(2) here show ?thesis by simp
  next
    case (Cons a pre')
    with Cons.prems(2) have "cs = pre' @ s" by simp
    from Cons.IH [OF tl this] show ?thesis .
  qed
qed

section \<open>The \<^verbatim>\<open>switch\<close>\<close>

lemma class_name_match_pattern:
  "(class_name_match code = None \<longleftrightarrow> \<not> pattern_occurs code)
   \<and> (class_name_match code = Some n \<longrightarrow> (\<exists>pre s. code = pre @ s \<and> pattern_at s n))"
proof (intro conjI impI iffI)
  assume none: "class_name_match code = None"
  show "\<not> pattern_occurs code"
  proof
    assume "pattern_occurs code"
    then obtain pre s n ws1 ws2 rest where code: "code = pre @ s" and
      s: "s = ''public'' @ ws1 @ ''class'' @ ws2 @ n @ rest"
         "ws1 \<noteq> []" "list_all is_space ws1" "ws2 \<noteq> []" "list_all is_space ws2"
         "n \<noteq> []" "list_all is_word n"
      unfolding pattern_occurs_def pattern_at_def by blast
    from match_here_complete [OF s] have "match_here s \<noteq> None" by simp
    with class_name_match_None [OF none code] show False by simp
  qed
next
  assume no: "\<not> pattern_occurs code"
  show "class_name_match code = None"
  proof (rule ccontr)
    assume "class_name_match code \<noteq> None"
    then obtain n where "class_name_match code = Some n" by blast
    from class_name_match_Some [OF this] obtain pre s where
      "code = pre @ s" "match_here s = Some n" by blast
    with match_here_sound [of s n] have "pattern_occurs code"
      unfolding pattern_occurs_def pattern_at_def by blast
    with no show False by simp
  qed
next
  assume "class_name_match code = Some n"
  from class_name_match_Some [OF this] obtain pre s where
    "code = pre @ s" "match_here s = Some n" by blast
  with match_here_sound [of s n] show "\<exists>pre s. code = pre @ s \<and> pattern_at s n"
    unfolding pattern_at_def by blast
qed

lemma match_main: "class_name_match ''public class Main {}'' = Some ''Main''"
  by code_simp

lemma no_class_in_snippet: "class_name_match ''class Main { }'' = None"
  by code_simp

lemma switch_language_supported:
  assumes "toLowerCase language \<in> {''javascript'', ''python'', ''go'', ''java''}"
  shows "switch_language h (toLowerCase language) code = switch_language h language code"
  using assms by (auto simp: switch_language_def toLowerCase_idem Let_def)

lemma switch_language_unsupported:
  assumes "toLowerCase language \<notin> {''javascript'', ''python'', ''go'', ''java''}"
  shows "switch_language h language code =
      Inl \<lparr>stdout = [], stderr = [], error = Some (''Unsupported language: '' @ language),
           command = []\<rparr>"
  using assms by (simp add: switch_language_def Let_def)

lemma switch_language_cases:
  assumes "switch_language h language code = Inr p"
  shows "(toLowerCase language = ''javascript'' \<longrightarrow>
            p = \<lparr>filePath = tempDir h @ ''/'' @ uuidv4 h @ ''.js'',
                 rawCommand = ''node '' @ tempDir h @ ''/'' @ uuidv4 h @ ''.js'',
                 cleanupFiles = [tempDir h @ ''/'' @ uuidv4 h @ ''.js''],
                 executableCommand = ''node''\<rparr>)
     \<and> (toLowerCase language = ''python'' \<longrightarrow>
            p = \<lparr>filePath = tempDir h @ ''/'' @ uuidv4 h @ ''.py'',
                 rawCommand = ''python3 '' @ tempDir h @ ''/'' @ uuidv4 h @ ''.py'',
                 cleanupFiles = [tempDir h @ ''/'' @ uuidv4 h @ ''.py''],
                 executableCommand = ''python3''\<rparr>)
     \<and> (toLowerCase language = ''go'' \<longrightarrow>
            p = \<lparr>filePath = tempDir h @ ''/'' @ uuidv4 h @ ''.go'',
                 rawCommand = ''go build -o '' @ tempDir h @ ''/'' @ uuidv4 h @ '' ''
                    @ tempDir h @ ''/'' @ uuidv4 h @ ''.go'' @ '' && '' @ tempDir h @ ''/'' @ uuidv4 h,
                 cleanupFiles = [tempDir h @ ''/'' @ uuidv4 h @ ''.go'', tempDir h @ ''/'' @ uuidv4 h],
                 executableCommand = ''go''\<rparr>)
     \<and> (toLowerCase language = ''java'' \<longrightarrow>
            (\<exists>className. class_name_match code = Some className \<and>
               p = \<lparr>filePath = tempDir h @ ''/'' @ className @ ''.java'',
                    rawCommand = ''javac '' @ tempDir h @ ''/'' @ className @ ''.java'' @ '' -d ''
                       @ tempDir h @ '' && java -cp '' @ tempDir h @ '' '' @ className,
                    cleanupFiles = [tempDir h @ ''/'' @ className @ ''.java'',
                                    tempDir h @ ''/'' @ className @ ''.class''],
                    executableCommand = ''java''\<rparr>))
     \<and> toLowerCase language \<in> {''javascript'', ''python'', ''go'', ''java''}"
  using assms
  by (auto simp: switch_language_def Let_def path_join_def split: if_splits option.splits)

lemma switch_language_uuid:
  assumes "toLowerCase language \<in> {''javascript'', ''python'', ''go''}"
  shows "\<exists>p ext. switch_language h language code = Inr p
     \<and> ext \<in> {''.js'', ''.py'', ''.go''}
     \<and> filePath p = tempDir h @ ''/'' @ uuidv4 h @ ext
     \<and> (cleanupFiles p = [filePath p] \<or> cleanupFiles p = [filePath p, tempDir h @ ''/'' @ uuidv4 h @ []])"
  using assms by (auto simp: switch_language_def Let_def path_join_def)

lemma uuid_names_differ:
  assumes "length (u1 :: string) = length u2" and "u1 \<noteq> u2"
  shows "d @ ''/'' @ u1 @ e1 \<noteq> d @ ''/'' @ u2 @ e2"
  using assms by simp

lemma uuid_name_includes: "str_includes (d @ ''/'' @ u @ e) u"
  using str_includes_context [OF str_includes_self, of "d @ ''/''" u e] by simp

lemma switch_language_java:
  assumes "toLowerCase language = ''java''"
  shows "switch_language h language code =
     (case class_name_match code of
        None \<Rightarrow> Inl java_error
      | Some className \<Rightarrow>
          Inr \<lparr>filePath = tempDir h @ ''/'' @ className @ ''.java'',
               rawCommand = ''javac '' @ tempDir h @ ''/'' @ className @ ''.java'' @ '' -d ''
                  @ tempDir h @ '' && java -cp '' @ tempDir h @ '' '' @ className,
               cleanupFiles = [tempDir h @ ''/'' @ className @ ''.java'',
                               tempDir h @ ''/'' @ className @ ''.class''],
               executableCommand = ''java''\<rparr>)"
  using assms by (simp add: switch_language_def Let_def path_join_def java_error_def split: option.splits)

section \<open>The head of \<^verbatim>\<open>runCode\<close>\<close>

lemma ensure_ready:
  assumes "dir_exists w \<or> mkdirSync_throws h = None"
  shows "\<exists>w1. ensure_temp_dir h w = Inr w1 \<and> files w1 = files w \<and> dir_exists w1
     \<and> calls w1 = calls w @ ExistsSync (tempDir h) # (if dir_exists w then [] else [MkdirSync (tempDir h)])"
  using assms by (auto simp: ensure_temp_dir_def record_call_def Let_def)

lemma ensure_throws:
  "ensure_temp_dir h w = Inl m \<longleftrightarrow> \<not> dir_exists w \<and> mkdirSync_throws h = Some m"
  by (auto simp: ensure_temp_dir_def record_call_def Let_def split: option.splits)

lemma runCode_throws:
  "runCode h language code w = Throws m \<longleftrightarrow> \<not> dir_exists w \<and> mkdirSync_throws h = Some m"
proof (cases "ensure_temp_dir h w")
  case (Inl e)
  then show ?thesis using ensure_throws [of h w e] ensure_throws [of h w m]
    by (auto simp: runCode_def)
next
  case (Inr w1)
  then have "\<not> (\<not> dir_exists w \<and> mkdirSync_throws h = Some m)"
    using ensure_throws [of h w m] by auto
  with Inr show ?thesis
    by (auto simp: runCode_def Let_def split: sum.splits option.splits)
qed

section \<open>The \<^verbatim>\<open>finally\<close> clause\<close>

lemma unlink_one_files:
  "files (unlink_one h f w) = (if unlinkSync_throws h f then files w else files w - {f})"
  by (auto simp: unlink_one_def record_call_def Let_def)

lemma unlink_one_dir: "dir_exists (unlink_one h f w) = dir_exists w"
  by (simp add: unlink_one_def record_call_def Let_def)

lemma unlink_all_files:
  "files (unlink_all h fs w) = files w - {f \<in> set fs. \<not> unlinkSync_throws h f}"
  by (induction fs arbitrary: w) (auto simp: unlink_one_files)

lemma unlink_all_dir: "dir_exists (unlink_all h fs w) = dir_exists w"
  by (induction fs arbitrary: w) (simp_all add: unlink_one_dir)

lemma remove_dir_files: "files (remove_dir_if_empty h w) = files w"
  by (simp add: remove_dir_if_empty_def record_call_def Let_def)

lemma remove_dir_dir:
  "dir_exists (remove_dir_if_empty h w) =
     (dir_exists w \<and> (readdirSync_throws h \<or> files w \<noteq> {} \<or> rmdirSync_throws h))"
  by (auto simp: remove_dir_if_empty_def record_call_def Let_def)

lemma finally_files:
  "files (finally_clause h p w) = files w - {f \<in> set (cleanupFiles p). \<not> unlinkSync_throws h f}"
  by (simp add: finally_clause_def remove_dir_files unlink_all_files)

lemma finally_dir:
  "dir_exists (finally_clause h p w) =
     (dir_exists w \<and> (readdirSync_throws h \<or> files (finally_clause h p w) \<noteq> {} \<or> rmdirSync_throws h))"
  by (simp add: finally_clause_def remove_dir_files remove_dir_dir unlink_all_dir)

section \<open>The \<^verbatim>\<open>try\<close> block\<close>

lemma try_catch_write_throws:
  assumes "writeFileSync_throws h = Some e"
  shows "fst (try_catch h p code w1) =
     Some \<lparr>stdout = [], stderr = [],
           error = Some (if e = [] then ''Unknown error during execution'' else e), command = []\<rparr>
     \<and> files (snd (try_catch h p code w1)) = files w1
     \<and> dir_exists (snd (try_catch h p code w1)) = dir_exists w1"
  using assms
  by (simp add: try_catch_def catch_clause_def opt_or_else_def or_else_def record_call_def Let_def)

lemma try_catch_never_called_back:
  assumes "writeFileSync_throws h = None"
      and "exec_run h (commandToExecute h (rawCommand p))
             (dir_exists w1, insert (filePath p) (files w1)) = None"
  shows "fst (try_catch h p code w1) = None
     \<and> files (snd (try_catch h p code w1)) = insert (filePath p) (files w1)
     \<and> dir_exists (snd (try_catch h p code w1)) = dir_exists w1"
  using assms by (simp add: try_catch_def record_call_def Let_def)

lemma try_catch_called_back:
  assumes "writeFileSync_throws h = None"
      and "exec_run h (commandToExecute h (rawCommand p))
             (dir_exists w1, insert (filePath p) (files w1)) = Some (c, d, fs)"
  shows "fst (try_catch h p code w1) =
     Some (case cb_error c of
             None \<Rightarrow> \<lparr>stdout = out c, stderr = err c, error = None,
                       command = commandToExecute h (rawCommand p)\<rparr>
           | Some m \<Rightarrow> \<lparr>stdout = out c, stderr = err c,
                         error = Some (or_else (errorMessage (executableCommand p) m)
                                          ''Unknown error during execution''),
                         command = []\<rparr>)
     \<and> files (snd (try_catch h p code w1)) = fs
     \<and> dir_exists (snd (try_catch h p code w1)) = d"
  using assms
  by (simp add: try_catch_def record_call_def catch_clause_def opt_or_else_def Let_def
        split: option.splits)

section \<open>The calls of a run\<close>

lemma exec_commands_append: "exec_commands (xs @ ys) = exec_commands xs @ exec_commands ys"
  by (induction xs rule: exec_commands.induct) simp_all

lemma written_files_append: "written_files (xs @ ys) = written_files xs @ written_files ys"
  by (induction xs rule: written_files.induct) simp_all

lemma unlink_all_calls:
  "exec_commands (calls (unlink_all h fs w)) = exec_commands (calls w)
   \<and> written_files (calls (unlink_all h fs w)) = written_files (calls w)"
  by (induction fs arbitrary: w)
     (simp_all add: unlink_one_def record_call_def Let_def exec_commands_append written_files_append)

lemma finally_calls:
  "exec_commands (calls (finally_clause h p w)) = exec_commands (calls w)
   \<and> written_files (calls (finally_clause h p w)) = written_files (calls w)"
  by (simp add: finally_clause_def remove_dir_if_empty_def record_call_def Let_def
        exec_commands_append written_files_append unlink_all_calls)

lemma try_catch_calls:
  "written_files (calls (snd (try_catch h p code w))) = written_files (calls w) @ [(filePath p, code)]
   \<and> exec_commands (calls (snd (try_catch h p code w))) =
       exec_commands (calls w) @
         (if writeFileSync_throws h = None then [commandToExecute h (rawCommand p)] else [])"
  by (auto simp: try_catch_def record_call_def Let_def exec_commands_append written_files_append
        split: option.splits)

section \<open>The paths through \<^verbatim>\<open>runCode\<close>\<close>

lemma runCode_plan:
  assumes "dir_exists w \<or> mkdirSync_throws h = None"
      and "switch_language h language code = Inr p"
  shows "\<exists>w1. files w1 = files w \<and> dir_exists w1
     \<and> calls w1 = calls w @ ExistsSync (tempDir h) # (if dir_exists w then [] else [MkdirSync (tempDir h)])
     \<and> runCode h language code w =
         (case fst (try_catch h p code w1) of
            None \<Rightarrow> Hangs (snd (try_catch h p code w1))
          | Some r \<Rightarrow> Returns r (finally_clause h p (snd (try_catch h p code w1))))"
proof -
  from ensure_ready [OF assms(1)] obtain w1 where w1: "ensure_temp_dir h w = Inr w1"
    "files w1 = files w" "dir_exists w1"
    "calls w1 = calls w @ ExistsSync (tempDir h) # (if dir_exists w then [] else [MkdirSync (tempDir h)])"
    by blast
  then show ?thesis using assms(2) by (auto simp: runCode_def Let_def)
qed

lemma runCode_early_return:
  assumes "dir_exists w \<or> mkdirSync_throws h = None"
      and "switch_language h language code = Inl r"
  shows "\<exists>w'. runCode h language code w = Returns r w' \<and> files w' = files w \<and> dir_exists w'
     \<and> calls w' = calls w @ ExistsSync (tempDir h) # (if dir_exists w then [] else [MkdirSync (tempDir h)])"
proof -
  from ensure_ready [OF assms(1)] obtain w1 where w1: "ensure_temp_dir h w = Inr w1"
    "files w1 = files w" "dir_exists w1"
    "calls w1 = calls w @ ExistsSync (tempDir h) # (if dir_exists w then [] else [MkdirSync (tempDir h)])"
    by blast
  then show ?thesis using assms(2) by (simp add: runCode_def)
qed

lemma runCode_write_throws:
  assumes "dir_exists w \<or> mkdirSync_throws h = None"
      and "switch_language h language code = Inr p"
      and "writeFileSync_throws h = Some e"
  shows "\<exists>w'. runCode h language code w =
            Returns \<lparr>stdout = [], stderr = [],
                     error = Some (if e = [] then ''Unknown error during execution'' else e),
                     command = []\<rparr> w'
     \<and> files w' = files w - {f \<in> set (cleanupFiles p). \<not> unlinkSync_throws h f}
     \<and> dir_exists w' = (readdirSync_throws h \<or> files w' \<noteq> {} \<or> rmdirSync_throws h)"
proof -
  from runCode_plan [OF assms(1,2)] obtain w1 where
    w1: "files w1 = files w" "dir_exists w1" and
    run: "runCode h language code w =
         (case fst (try_catch h p code w1) of
            None \<Rightarrow> Hangs (snd (try_catch h p code w1))
          | Some r \<Rightarrow> Returns r (finally_clause h p (snd (try_catch h p code w1))))"
    by blast
  note t = try_catch_write_throws [OF assms(3), of p code w1]
  let ?w' = "finally_clause h p (snd (try_catch h p code w1))"
  from run t have "runCode h language code w =
            Returns \<lparr>stdout = [], stderr = [],
                     error = Some (if e = [] then ''Unknown error during execution'' else e),
                     command = []\<rparr> ?w'"
    by simp
  moreover from t w1 have "files ?w' = files w - {f \<in> set (cleanupFiles p). \<not> unlinkSync_throws h f}"
    by (simp add: finally_files)
  moreover from t w1 have "dir_exists ?w' = (readdirSync_throws h \<or> files ?w' \<noteq> {} \<or> rmdirSync_throws h)"
    using finally_dir [of h p "snd (try_catch h p code w1)"] by simp
  ultimately show ?thesis by blast
qed

lemma runCode_never_called_back:
  assumes "dir_exists w \<or> mkdirSync_throws h = None"
      and "switch_language h language code = Inr p"
      and "writeFileSync_throws h = None"
      and "exec_run h (commandToExecute h (rawCommand p)) (True, insert (filePath p) (files w)) = None"
  shows "\<exists>w'. runCode h language code w = Hangs w'
     \<and> files w' = insert (filePath p) (files w) \<and> dir_exists w'"
proof -
  from runCode_plan [OF assms(1,2)] obtain w1 where
    w1: "files w1 = files w" "dir_exists w1" and
    run: "runCode h language code w =
         (case fst (try_catch h p code w1) of
            None \<Rightarrow> Hangs (snd (try_catch h p code w1))
          | Some r \<Rightarrow> Returns r (finally_clause h p (snd (try_catch h p code w1))))"
    by blast
  from w1 assms(4) have "exec_run h (commandToExecute h (rawCommand p))
             (dir_exists w1, insert (filePath p) (files w1)) = None" by simp
  from try_catch_never_called_back [OF assms(3) this, of code] run w1 show ?thesis by simp
qed

lemma runCode_called_back:
  assumes "dir_exists w \<or> mkdirSync_throws h = None"
      and "switch_language h language code = Inr p"
      and "writeFileSync_throws h = None"
      and "exec_run h (commandToExecute h (rawCommand p)) (True, insert (filePath p) (files w))
             = Some (c, d, fs)"
  shows "\<exists>w'. runCode h language code w =
            Returns (case cb_error c of
                       None \<Rightarrow> \<lparr>stdout = out c, stderr = err c, error = None,
                                 command = commandToExecute h (rawCommand p)\<rparr>
                     | Some m \<Rightarrow> \<lparr>stdout = out c, stderr = err c,
                                   error = Some (or_else (errorMessage (executableCommand p) m)
                                                    ''Unknown error during execution''),
                                   command = []\<rparr>) w'
     \<and> files w' = fs - {f \<in> set (cleanupFiles p). \<not> unlinkSync_throws h f}
     \<and> dir_exists w' = (d \<and> (readdirSync_throws h \<or> files w' \<noteq> {} \<or> rmdirSync_throws h))"
proof -
  from runCode_plan [OF assms(1,2)] obtain w1 where
    w1: "files w1 = files w" "dir_exists w1" and
    run: "runCode h language code w =
         (case fst (try_catch h p code w1) of
            None \<Rightarrow> Hangs (snd (try_catch h p code w1))
          | Some r \<Rightarrow> Returns r (finally_clause h p (snd (try_catch h p code w1))))"
    by blast
  from w1 assms(4) have "exec_run h (commandToExecute h (rawCommand p))
             (dir_exists w1, insert (filePath p) (files w1)) = Some (c, d, fs)" by simp
  note t = try_catch_called_back [OF assms(3) this, of code]
  let ?w' = "finally_clause h p (snd (try_catch h p code w1))"
  from run t have "runCode h language code w =
            Returns (case cb_error c of
                       None \<Rightarrow> \<lparr>stdout = out c, stderr = err c, error = None,
                                 command = commandToExecute h (rawCommand p)\<rparr>
                     | Some m \<Rightarrow> \<lparr>stdout = out c, stderr = err c,
                                   error = Some (or_else (errorMessage (executableCommand p) m)
                                                    ''Unknown error during execution''),
                                   command = []\<rparr>) ?w'"
    by simp
  moreover from t have "files ?w' = fs - {f \<in> set (cleanupFiles p). \<not> unlinkSync_throws h f}"
    by (simp add: finally_files)
  moreover from t have "dir_exists ?w' = (d \<and> (readdirSync_throws h \<or> files ?w' \<noteq> {} \<or> rmdirSync_throws h))"
    using finally_dir [of h p "snd (try_catch h p code w1)"] by simp
  ultimately show ?thesis by blast
qed

lemma runCode_calls:
  assumes "dir_exists w \<or> mkdirSync_throws h = None"
      and "switch_language h language code = Inr p"
  shows "\<exists>w'. world_of (runCode h language code w) = Some w'
     \<and> written_files (calls w') = written_files (calls w) @ [(filePath p, code)]
     \<and> exec_commands (calls w') =
         exec_commands (calls w) @
           (if writeFileSync_throws h = None then [commandToExecute h (rawCommand p)] else [])"
proof -
  from runCode_plan [OF assms] obtain w1 where
    c: "calls w1 = calls w @ ExistsSync (tempDir h) # (if dir_exists w then [] else [MkdirSync (tempDir h)])"
    and run: "runCode h language code w =
         (case fst (try_catch h p code w1) of
            None \<Rightarrow> Hangs (snd (try_catch h p code w1))
          | Some r \<Rightarrow> Returns r (finally_clause h p (snd (try_catch h p code w1))))"
    by blast
  from c have "written_files (calls w1) = written_files (calls w)"
    "exec_commands (calls w1) = exec_commands (calls w)"
    by (simp_all add: written_files_append exec_commands_append)
  with run show ?thesis
    by (cases "fst (try_catch h p code w1)") (simp_all add: finally_calls try_catch_calls)
qed

section \<open>Cleanup\<close>




section \<open>The error field\<close>




section \<open>Exceptions\<close>

lemma early_return_has_error:
  assumes "switch_language h language code = Inl r"
  shows "error r \<noteq> None"
  using assms by (auto simp: switch_language_def Let_def split: if_splits option.splits)

text \<open>
  C3 (as amended). \<^verbatim>\<open>runCode\<close> throws in one case only: the scratch directory is
  missing and \<^verbatim>\<open>mkdirSync\<close>, which runs before the \<^verbatim>\<open>try\<close> block, throws; the
  exception is then the one of \<^verbatim>\<open>mkdirSync\<close>. Otherwise the promise is never rejected.
  It is never settled when \<^verbatim>\<open>exec\<close> never calls back. In every other case the call
  returns a result, and every failure is captured in its \<open>error\<close> field: an unsupported
  language or a missing public class, an exception of \<^verbatim>\<open>writeFileSync\<close> (with empty
  output), and an error reported by \<^verbatim>\<open>exec\<close> (with the output \<^verbatim>\<open>exec\<close> captured); the
  field is \<open>None\<close> only when \<^verbatim>\<open>exec\<close> reported no error.
\<close>

theorem throws_only_from_mkdir:
  "(runCode h language code w = Throws m \<longleftrightarrow> \<not> dir_exists w \<and> mkdirSync_throws h = Some m)
   \<and> (dir_exists w \<or> mkdirSync_throws h = None \<longrightarrow>
        (\<forall>r0. switch_language h language code = Inl r0 \<longrightarrow>
           (\<exists>w'. runCode h language code w = Returns r0 w') \<and> error r0 \<noteq> None)
      \<and> (\<forall>p e. switch_language h language code = Inr p \<and> writeFileSync_throws h = Some e \<longrightarrow>
           (\<exists>w'. runCode h language code w =
               Returns \<lparr>stdout = [], stderr = [],
                        error = Some (if e = [] then ''Unknown error during execution'' else e),
                        command = []\<rparr> w'))
      \<and> (\<forall>p c d fs. switch_language h language code = Inr p \<and> writeFileSync_throws h = None
             \<and> exec_run h (commandToExecute h (rawCommand p))
                  (True, insert (filePath p) (files w)) = Some (c, d, fs) \<longrightarrow>
           (\<exists>r w'. runCode h language code w = Returns r w'
              \<and> (error r = None \<longleftrightarrow> cb_error c = None)
              \<and> stdout r = out c \<and> stderr r = err c))
      \<and> (\<forall>p. switch_language h language code = Inr p \<and> writeFileSync_throws h = None
             \<and> exec_run h (commandToExecute h (rawCommand p))
                  (True, insert (filePath p) (files w)) = None \<longrightarrow>
           (\<exists>w'. runCode h language code w = Hangs w')))"
proof (intro conjI impI allI)
  show "runCode h language code w = Throws m \<longleftrightarrow> \<not> dir_exists w \<and> mkdirSync_throws h = Some m"
    by (rule runCode_throws)
next
  fix r0
  assume "dir_exists w \<or> mkdirSync_throws h = None" "switch_language h language code = Inl r0"
  from runCode_early_return [OF this] show "\<exists>w'. runCode h language code w = Returns r0 w'"
    by blast
next
  fix r0
  assume "switch_language h language code = Inl r0"
  then show "error r0 \<noteq> None" by (rule early_return_has_error)
next
  fix p e
  assume "dir_exists w \<or> mkdirSync_throws h = None"
    "switch_language h language code = Inr p \<and> writeFileSync_throws h = Some e"
  then show "\<exists>w'. runCode h language code w =
               Returns \<lparr>stdout = [], stderr = [],
                        error = Some (if e = [] then ''Unknown error during execution'' else e),
                        command = []\<rparr> w'"
    using runCode_write_throws [of w h language code p e] by blast
next
  fix p c d fs
  assume "dir_exists w \<or> mkdirSync_throws h = None"
    "switch_language h language code = Inr p \<and> writeFileSync_throws h = None
             \<and> exec_run h (commandToExecute h (rawCommand p))
                  (True, insert (filePath p) (files w)) = Some (c, d, fs)"
  then show "\<exists>r w'. runCode h language code w = Returns r w'
              \<and> (error r = None \<longleftrightarrow> cb_error c = None)
              \<and> stdout r = out c \<and> stderr r = err c"
    using runCode_called_back [of w h language code p c d fs] by (cases "cb_error c") auto
next
  fix p
  assume "dir_exists w \<or> mkdirSync_throws h = None"
    "switch_language h language code = Inr p \<and> writeFileSync_throws h = None
             \<and> exec_run h (commandToExecute h (rawCommand p))
                  (True, insert (filePath p) (files w)) = None"
  then show "\<exists>w'. runCode h language code w = Hangs w'"
    using runCode_never_called_back [of w h language code p] by blast
qed

theorem throws_only_from_mkdir_witness:
  "(dir_exists no_dir \<or> mkdirSync_throws full_host = None)
   \<and> switch_language full_host ''python'' ''print(1)'' = Inr python_plan
   \<and> writeFileSync_throws full_host = Some ''ENOSPC: no space left on device, write''
   \<and> (\<exists>w'. runCode full_host ''python'' ''print(1)'' no_dir =
          Returns \<lparr>stdout = [], stderr = [],
                   error = Some ''ENOSPC: no space left on device, write'', command = []\<rparr> w')
   \<and> (dir_exists empty_dir \<or> mkdirSync_throws crash_host = None)
   \<and> switch_language crash_host ''python'' ''raise SystemExit(1)'' = Inr python_plan
   \<and> writeFileSync_throws crash_host = None
   \<and> exec_run crash_host (commandToExecute crash_host (rawCommand python_plan))
        (True, insert (filePath python_plan) (files empty_dir))
       = Some (\<lparr>ended = Exited 1,
                cb_error = Some (''Command failed: '' @ commandToExecute crash_host (rawCommand python_plan)
                                  @ [CHR 0x0A] @ ''Traceback (most recent call last)''),
                out = ''partial'', err = ''Traceback (most recent call last)''\<rparr>,
               True, insert (filePath python_plan) (files empty_dir))
   \<and> (\<exists>r w'. runCode crash_host ''python'' ''raise SystemExit(1)'' empty_dir = Returns r w'
         \<and> error r \<noteq> None \<and> stdout r = ''partial'')
   \<and> switch_language stuck_host ''python'' ''while True: pass'' = Inr python_plan
   \<and> writeFileSync_throws stuck_host = None
   \<and> exec_run stuck_host (commandToExecute stuck_host (rawCommand python_plan))
        (True, insert (filePath python_plan) (files empty_dir)) = None
   \<and> (\<exists>w'. runCode stuck_host ''python'' ''while True: pass'' empty_dir = Hangs w')
   \<and> switch_language bash_host ''Ruby'' ''puts 1'' =
        Inl \<lparr>stdout = [], stderr = [], error = Some ''Unsupported language: Ruby'', command = []\<rparr>
   \<and> (\<exists>w'. runCode bash_host ''Ruby'' ''puts 1'' empty_dir =
          Returns \<lparr>stdout = [], stderr = [], error = Some ''Unsupported language: Ruby'',
                   command = []\<rparr> w')"
proof -
  have a1: "dir_exists no_dir \<or> mkdirSync_throws full_host = None"
    by (simp add: full_host_def bash_host_def)
  have b1: "switch_language full_host ''python'' ''print(1)'' = Inr python_plan"
    by (simp add: switch_language_def lower_python Let_def path_join_def full_host_def
          bash_host_def python_plan_def)
  have c1: "writeFileSync_throws full_host = Some ''ENOSPC: no space left on device, write''"
    by (simp add: full_host_def)
  from throws_only_from_mkdir [of full_host "''python''" "''print(1)''" no_dir] a1 b1 c1
  have d1: "\<exists>w'. runCode full_host ''python'' ''print(1)'' no_dir =
          Returns \<lparr>stdout = [], stderr = [],
                   error = Some ''ENOSPC: no space left on device, write'', command = []\<rparr> w'"
    by fastforce
  have a2: "dir_exists empty_dir \<or> mkdirSync_throws crash_host = None"
    by (simp add: empty_dir_def)
  have b2: "switch_language crash_host ''python'' ''raise SystemExit(1)'' = Inr python_plan"
    by (simp add: switch_language_def lower_python Let_def path_join_def crash_host_def
          bash_host_def python_plan_def)
  have c2: "writeFileSync_throws crash_host = None"
    by (simp add: crash_host_def bash_host_def)
  have e2: "exec_run crash_host (commandToExecute crash_host (rawCommand python_plan))
        (True, insert (filePath python_plan) (files empty_dir))
       = Some (\<lparr>ended = Exited 1,
                cb_error = Some (''Command failed: '' @ commandToExecute crash_host (rawCommand python_plan)
                                  @ [CHR 0x0A] @ ''Traceback (most recent call last)''),
                out = ''partial'', err = ''Traceback (most recent call last)''\<rparr>,
               True, insert (filePath python_plan) (files empty_dir))"
    by (simp add: crash_host_def)
  note t2 = throws_only_from_mkdir [of crash_host "''python''" "''raise SystemExit(1)''" empty_dir,
    THEN conjunct2, THEN mp, OF a2, THEN conjunct2, THEN conjunct2, THEN conjunct1, rule_format,
    OF conjI [OF b2 conjI [OF c2 e2]]]
  from t2 have d2: "\<exists>r w'. runCode crash_host ''python'' ''raise SystemExit(1)'' empty_dir = Returns r w'
         \<and> error r \<noteq> None \<and> stdout r = ''partial''"
    by auto
  have a3: "dir_exists empty_dir \<or> mkdirSync_throws stuck_host = None"
    by (simp add: empty_dir_def)
  have b3: "switch_language stuck_host ''python'' ''while True: pass'' = Inr python_plan"
    by (simp add: switch_language_def lower_python Let_def path_join_def stuck_host_def
          bash_host_def python_plan_def)
  have c3: "writeFileSync_throws stuck_host = None"
    by (simp add: stuck_host_def bash_host_def)
  have e3: "exec_run stuck_host (commandToExecute stuck_host (rawCommand python_plan))
        (True, insert (filePath python_plan) (files empty_dir)) = None"
    by (simp add: stuck_host_def)
  from throws_only_from_mkdir [of stuck_host "''python''" "''while True: pass''" empty_dir]
    a3 b3 c3 e3
  have d3: "\<exists>w'. runCode stuck_host ''python'' ''while True: pass'' empty_dir = Hangs w'"
    by blast
  have a4: "dir_exists empty_dir \<or> mkdirSync_throws bash_host = None"
    by (simp add: empty_dir_def)
  have b4: "switch_language bash_host ''Ruby'' ''puts 1'' =
        Inl \<lparr>stdout = [], stderr = [], error = Some ''Unsupported language: Ruby'', command = []\<rparr>"
    by (simp add: switch_language_def lower_ruby Let_def)
  from throws_only_from_mkdir [of bash_host "''Ruby''" "''puts 1''" empty_dir] a4 b4
  have d4: "\<exists>w'. runCode bash_host ''Ruby'' ''puts 1'' empty_dir =
          Returns \<lparr>stdout = [], stderr = [], error = Some ''Unsupported language: Ruby'',
                   command = []\<rparr> w'"
    by blast
  from a1 b1 c1 d1 a2 b2 c2 e2 d2 b3 c3 e3 d3 b4 d4 show ?thesis by blast
qed

text \<open>
  C3 as stated fails when the scratch directory is missing and cannot be created: the
  exception of \<^verbatim>\<open>mkdirSync\<close> leaves \<^verbatim>\<open>runCode\<close>.
\<close>

theorem mkdir_exception_escapes:
  "runCode readonly_host ''python'' ''print(1)'' no_dir = Throws ''EACCES: permission denied, mkdir''"
  by (simp add: runCode_def ensure_temp_dir_def record_call_def readonly_host_def no_dir_def)

section \<open>Unsupported languages\<close>

text \<open>
  C4 (as amended). When the lower-cased identifier is none of the four languages and the
  scratch directory is there or can be created, the call returns at once with empty
  output, an empty command and the error \<^verbatim>\<open>Unsupported language: \<close> followed by the
  identifier as given; no file is written or deleted and no process is spawned. The
  interaction with the file system is the step that precedes the lookup: one
  \<^verbatim>\<open>existsSync\<close> on the scratch directory, and its creation when it is missing.
\<close>

theorem unsupported_language_result:
  assumes "toLowerCase language \<notin> {''javascript'', ''python'', ''go'', ''java''}"
      and "dir_exists w \<or> mkdirSync_throws h = None"
  shows "\<exists>w'. runCode h language code w =
            Returns \<lparr>stdout = [], stderr = [],
                     error = Some (''Unsupported language: '' @ language), command = []\<rparr> w'
     \<and> files w' = files w \<and> dir_exists w'
     \<and> calls w' = calls w @ ExistsSync (tempDir h) # (if dir_exists w then [] else [MkdirSync (tempDir h)])"
  using runCode_early_return [OF assms(2) switch_language_unsupported [OF assms(1)]] .

theorem unsupported_language_result_witness:
  "toLowerCase ''Ruby'' \<notin> {''javascript'', ''python'', ''go'', ''java''}
   \<and> (dir_exists empty_dir \<or> mkdirSync_throws bash_host = None)
   \<and> (\<exists>w'. runCode bash_host ''Ruby'' ''puts 1'' empty_dir =
            Returns \<lparr>stdout = [], stderr = [], error = Some ''Unsupported language: Ruby'',
                     command = []\<rparr> w'
        \<and> files w' = {} \<and> calls w' = [ExistsSync ''/ext/temp''])"
proof -
  have a: "toLowerCase ''Ruby'' \<notin> {''javascript'', ''python'', ''go'', ''java''}"
    by (simp add: lower_ruby)
  have b: "dir_exists empty_dir \<or> mkdirSync_throws bash_host = None"
    by (simp add: empty_dir_def)
  from unsupported_language_result [OF a b, of "''puts 1''"] a b show ?thesis
    by (auto simp: empty_dir_def bash_host_def)
qed

text \<open>
  C4 as stated fails when the scratch directory is missing: the call for an unknown
  language creates it, and it is on disk when the call has returned.
\<close>

theorem unsupported_language_creates_directory:
  "runCode bash_host ''Ruby'' ''puts 1'' no_dir =
     Returns \<lparr>stdout = [], stderr = [], error = Some ''Unsupported language: Ruby'', command = []\<rparr>
          \<lparr>dir_exists = True, files = {},
           calls = [ExistsSync ''/ext/temp'', MkdirSync ''/ext/temp'']\<rparr>"
  by (simp add: runCode_def ensure_temp_dir_def switch_language_def lower_ruby bash_host_def
        no_dir_def record_call_def)

section \<open>File names\<close>

text \<open>
  C5 (as amended). For JavaScript, Python and Go every artifact the call names, the
  source file and for Go the compiled binary, lies in the scratch directory under a name
  that contains the identifier generated for the call; so two such calls in the same
  directory whose identifiers are distinct values of \<^verbatim>\<open>uuidv4()\<close> name no file in
  common. For Java the plan, and with it every file name, is the same whatever the
  identifier is: the names are made from the class name found in the source.
\<close>

theorem artifact_names_embed_uuid:
  assumes "toLowerCase l1 \<in> {''javascript'', ''python'', ''go''}"
      and "toLowerCase l2 \<in> {''javascript'', ''python'', ''go''}"
      and "tempDir h1 = tempDir h2"
      and "uuid_shaped (uuidv4 h1)" and "uuid_shaped (uuidv4 h2)"
      and "uuidv4 h1 \<noteq> uuidv4 h2"
  shows "\<exists>p1 p2. switch_language h1 l1 c1 = Inr p1 \<and> switch_language h2 l2 c2 = Inr p2
     \<and> filePath p1 \<in> set (cleanupFiles p1)
     \<and> (\<forall>f \<in> set (cleanupFiles p1). str_includes f (uuidv4 h1))
     \<and> set (cleanupFiles p1) \<inter> set (cleanupFiles p2) = {}
     \<and> (\<forall>l c u. toLowerCase l = ''java'' \<longrightarrow>
            switch_language (h1\<lparr>uuidv4 := u\<rparr>) l c = switch_language h1 l c)"
proof -
  have java: "\<forall>l c u. toLowerCase l = ''java'' \<longrightarrow>
            switch_language (h1\<lparr>uuidv4 := u\<rparr>) l c = switch_language h1 l c"
    by (simp add: switch_language_def Let_def)
  from switch_language_uuid [OF assms(1), of h1 c1] obtain p1 e1 where
    p1: "switch_language h1 l1 c1 = Inr p1"
        "filePath p1 = tempDir h1 @ ''/'' @ uuidv4 h1 @ e1"
        "cleanupFiles p1 = [filePath p1] \<or> cleanupFiles p1 = [filePath p1, tempDir h1 @ ''/'' @ uuidv4 h1 @ []]"
    by blast
  from switch_language_uuid [OF assms(2), of h2 c2] obtain p2 e2 where
    p2: "switch_language h2 l2 c2 = Inr p2"
        "filePath p2 = tempDir h2 @ ''/'' @ uuidv4 h2 @ e2"
        "cleanupFiles p2 = [filePath p2] \<or> cleanupFiles p2 = [filePath p2, tempDir h2 @ ''/'' @ uuidv4 h2 @ []]"
    by blast
  from assms(4,5) have len: "length (uuidv4 h1) = length (uuidv4 h2)"
    by (simp add: uuid_shaped_def)
  note diff = uuid_names_differ [OF len assms(6), of "tempDir h2"]
  have a: "filePath p1 \<in> set (cleanupFiles p1)"
    using p1(3) by auto
  have b: "\<forall>f \<in> set (cleanupFiles p1). str_includes f (uuidv4 h1)"
    using p1(2,3) uuid_name_includes [of "tempDir h1" "uuidv4 h1" e1]
      uuid_name_includes [of "tempDir h1" "uuidv4 h1" "[]"] by auto
  have c: "set (cleanupFiles p1) \<inter> set (cleanupFiles p2) = {}"
  proof -
    have s1: "set (cleanupFiles p1) \<subseteq> {tempDir h2 @ ''/'' @ uuidv4 h1 @ e1, tempDir h2 @ ''/'' @ uuidv4 h1 @ []}"
      using p1(2,3) assms(3) by auto
    have s2: "set (cleanupFiles p2) \<subseteq> {tempDir h2 @ ''/'' @ uuidv4 h2 @ e2, tempDir h2 @ ''/'' @ uuidv4 h2 @ []}"
      using p2(2,3) by auto
    have "{tempDir h2 @ ''/'' @ uuidv4 h1 @ e1, tempDir h2 @ ''/'' @ uuidv4 h1 @ []}
        \<inter> {tempDir h2 @ ''/'' @ uuidv4 h2 @ e2, tempDir h2 @ ''/'' @ uuidv4 h2 @ []} = {}"
      using diff [of e1 e2] diff [of e1 "[]"] diff [of "[]" e2] diff [of "[]" "[]"]
      by (simp only: Int_insert_left Int_empty_left insert_iff empty_iff if_False simp_thms)
    with s1 s2 show ?thesis by blast
  qed
  from p1(1) p2(1) a b c java show ?thesis by blast
qed

lemma bash_uuid_shaped: "uuid_shaped (uuidv4 bash_host)"
  by code_simp

lemma other_uuid_shaped: "uuid_shaped (uuidv4 other_host)"
  by code_simp

theorem artifact_names_embed_uuid_witness:
  "toLowerCase ''go'' \<in> {''javascript'', ''python'', ''go''}
   \<and> toLowerCase ''python'' \<in> {''javascript'', ''python'', ''go''}
   \<and> tempDir bash_host = tempDir other_host
   \<and> uuid_shaped (uuidv4 bash_host) \<and> uuid_shaped (uuidv4 other_host)
   \<and> uuidv4 bash_host \<noteq> uuidv4 other_host
   \<and> (\<exists>p2. switch_language bash_host ''go'' ''package main'' = Inr go_plan
         \<and> switch_language other_host ''python'' ''print(1)'' = Inr p2
         \<and> set (cleanupFiles go_plan) \<inter> set (cleanupFiles p2) = {})"
proof -
  have a: "toLowerCase ''go'' \<in> {''javascript'', ''python'', ''go''}"
    by (simp add: lower_go)
  have b: "toLowerCase ''python'' \<in> {''javascript'', ''python'', ''go''}"
    by (simp add: lower_python)
  have c: "tempDir bash_host = tempDir other_host"
    by (simp add: other_host_def)
  have d: "uuidv4 bash_host \<noteq> uuidv4 other_host"
    by (simp add: other_host_def bash_host_def)
  have e: "switch_language bash_host ''go'' ''package main'' = Inr go_plan"
    by (simp add: switch_language_def lower_go Let_def path_join_def bash_host_def go_plan_def)
  from artifact_names_embed_uuid [OF a b c bash_uuid_shaped other_uuid_shaped d,
      of "''package main''" "''print(1)''"] e
  have "\<exists>p2. switch_language bash_host ''go'' ''package main'' = Inr go_plan
         \<and> switch_language other_host ''python'' ''print(1)'' = Inr p2
         \<and> set (cleanupFiles go_plan) \<inter> set (cleanupFiles p2) = {}"
    by auto
  with a b c d bash_uuid_shaped other_uuid_shaped show ?thesis by blast
qed

text \<open>
  C5 as stated fails for Java: two calls with different identifiers whose sources declare
  the same public class write the same file, and its name does not contain the
  identifier of either call.
\<close>

theorem java_names_ignore_uuid:
  "uuidv4 bash_host \<noteq> uuidv4 other_host
   \<and> switch_language bash_host ''java'' ''public class Main {}'' = Inr java_plan
   \<and> switch_language other_host ''java'' ''public class Main {}'' = Inr java_plan
   \<and> map_option (written_files \<circ> calls)
        (returned_world (runCode bash_host ''java'' ''public class Main {}'' no_dir))
       = Some [(''/ext/temp/Main.java'', ''public class Main {}'')]
   \<and> map_option (written_files \<circ> calls)
        (returned_world (runCode other_host ''java'' ''public class Main {}'' no_dir))
       = Some [(''/ext/temp/Main.java'', ''public class Main {}'')]
   \<and> \<not> str_includes ''/ext/temp/Main.java'' (uuidv4 bash_host)
   \<and> \<not> str_includes ''/ext/temp/Main.java'' (uuidv4 other_host)"
  by code_simp

section \<open>Java sources\<close>

text \<open>
  C6. For Java (and once the scratch directory is there) the source is scanned for the
  pattern \<^verbatim>\<open>public\s+class\s+([a-zA-Z0-9_]+)\<close>. When it occurs nowhere, the call returns
  the error that a public class definition is missing, and it has written no file,
  spawned no process and left the entries of the scratch directory as they were. When
  it occurs, the call writes the source to exactly one file, named after the class name
  the match reports, with the extension \<^verbatim>\<open>.java\<close>.
\<close>

theorem java_class_name:
  assumes "toLowerCase language = ''java''"
      and "dir_exists w \<or> mkdirSync_throws h = None"
  shows "(class_name_match code = None \<longleftrightarrow> \<not> pattern_occurs code)
     \<and> (class_name_match code = None \<longrightarrow>
           (\<exists>w'. runCode h language code w = Returns java_error w'
              \<and> error java_error =
                   Some ''Java code must contain a public class definition (e.g., public class Main).''
              \<and> written_files (calls w') = written_files (calls w)
              \<and> exec_commands (calls w') = exec_commands (calls w)
              \<and> files w' = files w))
     \<and> (\<forall>n. class_name_match code = Some n \<longrightarrow>
           (\<exists>pre s. code = pre @ s \<and> pattern_at s n)
           \<and> (\<exists>w'. world_of (runCode h language code w) = Some w'
                \<and> written_files (calls w') =
                    written_files (calls w) @ [(tempDir h @ ''/'' @ n @ ''.java'', code)]))"
proof (intro conjI impI allI)
  show "class_name_match code = None \<longleftrightarrow> \<not> pattern_occurs code"
    using class_name_match_pattern by blast
next
  assume none: "class_name_match code = None"
  with switch_language_java [OF assms(1), of h code]
  have sw: "switch_language h language code = Inl java_error" by simp
  from runCode_early_return [OF assms(2) sw] obtain w' where
    w': "runCode h language code w = Returns java_error w'" "files w' = files w"
    "calls w' = calls w @ ExistsSync (tempDir h) # (if dir_exists w then [] else [MkdirSync (tempDir h)])"
    by blast
  from w'(3) have "written_files (calls w') = written_files (calls w)"
    "exec_commands (calls w') = exec_commands (calls w)"
    by (simp_all add: written_files_append exec_commands_append)
  with w'(1,2) show "\<exists>w'. runCode h language code w = Returns java_error w'
              \<and> error java_error =
                   Some ''Java code must contain a public class definition (e.g., public class Main).''
              \<and> written_files (calls w') = written_files (calls w)
              \<and> exec_commands (calls w') = exec_commands (calls w)
              \<and> files w' = files w"
    by (auto simp: java_error_def)
next
  fix n assume "class_name_match code = Some n"
  then show "\<exists>pre s. code = pre @ s \<and> pattern_at s n"
    using class_name_match_pattern by blast
next
  fix n assume some: "class_name_match code = Some n"
  with switch_language_java [OF assms(1), of h code] obtain p where
    sw: "switch_language h language code = Inr p" and fp: "filePath p = tempDir h @ ''/'' @ n @ ''.java''"
    by simp
  from runCode_calls [OF assms(2) sw] fp
  show "\<exists>w'. world_of (runCode h language code w) = Some w'
                \<and> written_files (calls w') =
                    written_files (calls w) @ [(tempDir h @ ''/'' @ n @ ''.java'', code)]"
    by auto
qed

theorem java_class_name_witness:
  "toLowerCase ''Java'' = ''java''
   \<and> (dir_exists empty_dir \<or> mkdirSync_throws bash_host = None)
   \<and> class_name_match ''class Main { }'' = None
   \<and> class_name_match ''public class Main {}'' = Some ''Main''
   \<and> (\<exists>w'. runCode bash_host ''Java'' ''class Main { }'' empty_dir = Returns java_error w'
         \<and> written_files (calls w') = [] \<and> files w' = {})
   \<and> (\<exists>w'. world_of (runCode bash_host ''Java'' ''public class Main {}'' empty_dir) = Some w'
         \<and> written_files (calls w') = [(''/ext/temp/Main.java'', ''public class Main {}'')])"
proof -
  have a: "dir_exists empty_dir \<or> mkdirSync_throws bash_host = None"
    by (simp add: empty_dir_def)
  from java_class_name [OF lower_Java a, of "''class Main { }''"] no_class_in_snippet
  have b: "\<exists>w'. runCode bash_host ''Java'' ''class Main { }'' empty_dir = Returns java_error w'
         \<and> written_files (calls w') = [] \<and> files w' = {}"
    by (auto simp: empty_dir_def)
  from java_class_name [OF lower_Java a, of "''public class Main {}''"] match_main
  have c: "\<exists>w'. world_of (runCode bash_host ''Java'' ''public class Main {}'' empty_dir) = Some w'
         \<and> written_files (calls w') = [(''/ext/temp/Main.java'', ''public class Main {}'')]"
    by (auto simp: empty_dir_def bash_host_def)
  from lower_Java a no_class_in_snippet match_main b c show ?thesis by blast
qed

section \<open>Case of the language identifier\<close>

text \<open>
  C9 (as amended). For an identifier whose lower-cased form is a supported language,
  \<^verbatim>\<open>runCode\<close> does exactly what it does for the lower-cased identifier: same result or
  exception, same calls, same world. For any other identifier the two calls throw alike,
  are always settled and leave the same world, and their results differ only in the
  error text, which quotes the identifier as it was given.
\<close>

theorem language_case_insensitive:
  "(toLowerCase language \<in> {''javascript'', ''python'', ''go'', ''java''} \<longrightarrow>
      runCode h (toLowerCase language) code w = runCode h language code w)
   \<and> (toLowerCase language \<notin> {''javascript'', ''python'', ''go'', ''java''} \<longrightarrow>
        (\<forall>m. runCode h (toLowerCase language) code w = Throws m \<longleftrightarrow> runCode h language code w = Throws m)
        \<and> (\<forall>w'. runCode h language code w \<noteq> Hangs w'
                \<and> runCode h (toLowerCase language) code w \<noteq> Hangs w')
        \<and> (\<forall>r w'. runCode h language code w = Returns r w' \<longrightarrow>
              r = \<lparr>stdout = [], stderr = [], error = Some (''Unsupported language: '' @ language),
                   command = []\<rparr>
              \<and> runCode h (toLowerCase language) code w =
                  Returns (r\<lparr>error := Some (''Unsupported language: '' @ toLowerCase language)\<rparr>) w'))"
proof (intro conjI impI)
  assume "toLowerCase language \<in> {''javascript'', ''python'', ''go'', ''java''}"
  then show "runCode h (toLowerCase language) code w = runCode h language code w"
    by (simp only: runCode_def switch_language_supported)
next
  assume "toLowerCase language \<notin> {''javascript'', ''python'', ''go'', ''java''}"
  show "\<forall>m. runCode h (toLowerCase language) code w = Throws m \<longleftrightarrow> runCode h language code w = Throws m"
    by (simp add: runCode_throws)
next
  assume un: "toLowerCase language \<notin> {''javascript'', ''python'', ''go'', ''java''}"
  then have un': "toLowerCase (toLowerCase language) \<notin> {''javascript'', ''python'', ''go'', ''java''}"
    by (simp add: toLowerCase_idem)
  show "\<forall>w'. runCode h language code w \<noteq> Hangs w'
                \<and> runCode h (toLowerCase language) code w \<noteq> Hangs w'"
    by (auto simp: runCode_def switch_language_unsupported [OF un]
          switch_language_unsupported [OF un'] split: sum.splits)
next
  assume un: "toLowerCase language \<notin> {''javascript'', ''python'', ''go'', ''java''}"
  then have un': "toLowerCase (toLowerCase language) \<notin> {''javascript'', ''python'', ''go'', ''java''}"
    by (simp add: toLowerCase_idem)
  show "\<forall>r w'. runCode h language code w = Returns r w' \<longrightarrow>
              r = \<lparr>stdout = [], stderr = [], error = Some (''Unsupported language: '' @ language),
                   command = []\<rparr>
              \<and> runCode h (toLowerCase language) code w =
                  Returns (r\<lparr>error := Some (''Unsupported language: '' @ toLowerCase language)\<rparr>) w'"
    by (auto simp: runCode_def switch_language_unsupported [OF un]
          switch_language_unsupported [OF un'] split: sum.splits)
qed

theorem language_case_insensitive_witness:
  "toLowerCase ''PyThOn'' \<in> {''javascript'', ''python'', ''go'', ''java''}
   \<and> runCode bash_host (toLowerCase ''PyThOn'') ''print(1)'' no_dir
       = runCode bash_host ''PyThOn'' ''print(1)'' no_dir
   \<and> toLowerCase ''Ruby'' \<notin> {''javascript'', ''python'', ''go'', ''java''}
   \<and> runCode bash_host (toLowerCase ''Ruby'') ''puts 1'' empty_dir =
        Returns \<lparr>stdout = [], stderr = [], error = Some ''Unsupported language: ruby'', command = []\<rparr>
             \<lparr>dir_exists = True, files = {}, calls = [ExistsSync ''/ext/temp'']\<rparr>"
proof -
  have a: "toLowerCase ''PyThOn'' \<in> {''javascript'', ''python'', ''go'', ''java''}"
    by (simp add: lower_Python)
  have b: "toLowerCase ''Ruby'' \<notin> {''javascript'', ''python'', ''go'', ''java''}"
    by (simp add: lower_ruby)
  have c: "runCode bash_host ''Ruby'' ''puts 1'' empty_dir =
        Returns \<lparr>stdout = [], stderr = [], error = Some ''Unsupported language: Ruby'', command = []\<rparr>
             \<lparr>dir_exists = True, files = {}, calls = [ExistsSync ''/ext/temp'']\<rparr>"
    by (simp add: runCode_def ensure_temp_dir_def switch_language_def lower_ruby bash_host_def
        empty_dir_def record_call_def)
  from language_case_insensitive [of "''PyThOn''" bash_host "''print(1)''" no_dir] a
  have d: "runCode bash_host (toLowerCase ''PyThOn'') ''print(1)'' no_dir
       = runCode bash_host ''PyThOn'' ''print(1)'' no_dir"
    by blast
  from language_case_insensitive [of "''Ruby''" bash_host "''puts 1''" empty_dir] b c
  have "runCode bash_host (toLowerCase ''Ruby'') ''puts 1'' empty_dir =
        Returns (\<lparr>stdout = [], stderr = [], error = Some ''Unsupported language: Ruby'', command = []\<rparr>
               \<lparr>error := Some (''Unsupported language: '' @ toLowerCase ''Ruby'')\<rparr>)
             \<lparr>dir_exists = True, files = {}, calls = [ExistsSync ''/ext/temp'']\<rparr>"
    by blast
  then have e: "runCode bash_host (toLowerCase ''Ruby'') ''puts 1'' empty_dir =
        Returns \<lparr>stdout = [], stderr = [], error = Some ''Unsupported language: ruby'', command = []\<rparr>
             \<lparr>dir_exists = True, files = {}, calls = [ExistsSync ''/ext/temp'']\<rparr>"
    by (simp add: lower_ruby)
  from a b d e show ?thesis by blast
qed

text \<open>
  C9 as stated fails for an identifier that is not supported: the error text quotes the
  identifier as given, so the call differs from the one with the lower-cased
  identifier.
\<close>

theorem unsupported_error_keeps_case:
  "runCode bash_host ''Ruby'' ''puts 1'' empty_dir \<noteq> runCode bash_host (toLowerCase ''Ruby'') ''puts 1'' empty_dir"
  by code_simp

section \<open>The detector\<close>

lemma findExecutable_which:
  "findExecutable h cmd =
     (if cb_error (exec_probe h (which_command h cmd)) = None \<and> err (exec_probe h (which_command h cmd)) = []
      then Some (trim (out (exec_probe h (which_command h cmd)))) else None)"
  by (simp add: findExecutable_def Let_def)

lemma detect_loop_filter:
  "detect_loop h checks =
     map (\<lambda>(n, v, cmd). \<lparr>name = n, value = v,
                           executablePath = trim (out (exec_probe h (which_command h cmd)))\<rparr>)
       (filter (\<lambda>(n, v, cmd). cb_error (exec_probe h (which_command h cmd)) = None
                   \<and> err (exec_probe h (which_command h cmd)) = []
                   \<and> trim (out (exec_probe h (which_command h cmd))) \<noteq> []) checks)"
  by (induction h checks rule: detect_loop.induct) (auto simp: findExecutable_which)

text \<open>
  C10 (as amended). \<^verbatim>\<open>detectInstalledLanguages\<close> returns, in the order JavaScript,
  Python, Go of the check list, exactly the languages whose probe (the command
  \<^verbatim>\<open><shell> -l -c "which <command>"\<close>) ended without an error of \<^verbatim>\<open>exec\<close>, wrote
  nothing on standard error and printed something other than white space on standard
  output; the recorded path is the trimmed output. So any output on standard error
  excludes the language.
\<close>

theorem detect_characterisation:
  "detectInstalledLanguages h =
     map (\<lambda>(n, v, cmd). \<lparr>name = n, value = v,
                           executablePath = trim (out (exec_probe h (which_command h cmd)))\<rparr>)
       (filter (\<lambda>(n, v, cmd). cb_error (exec_probe h (which_command h cmd)) = None
                   \<and> err (exec_probe h (which_command h cmd)) = []
                   \<and> trim (out (exec_probe h (which_command h cmd))) \<noteq> [])
          [(''JavaScript'', ''javascript'', ''node''), (''Python'', ''python'', ''python3''),
           (''Go'', ''go'', ''go'')])
   \<and> which_command h cmd = (case SHELL h of None \<Rightarrow> ''/bin/zsh'' | Some s \<Rightarrow> if s = [] then ''/bin/zsh'' else s)
        @ '' -l -c '' @ [CHR 0x22] @ ''which '' @ cmd @ [CHR 0x22]"
  by (simp add: detectInstalledLanguages_def detect_loop_filter languageChecks_def
        which_command_def defaultShellPath_def opt_or_else_def or_else_def split: option.splits)

theorem detect_characterisation_witness:
  "detectInstalledLanguages mixed_host =
     [\<lparr>name = ''JavaScript'', value = ''javascript'', executablePath = ''/usr/local/bin/node''\<rparr>]"
  using detect_characterisation [of mixed_host]
  by (simp add: which_command_def defaultShellPath_def opt_or_else_def or_else_def mixed_host_def bash_host_def trim_def is_space_def)

text \<open>
  C10 as stated fails for a probe that ends without error, with nothing on standard
  error and nothing on standard output: the language is left out.
\<close>

theorem blank_output_excludes:
  "detectInstalledLanguages early_exit_host = []
   \<and> cb_error (exec_probe early_exit_host
         (''/bin/bash -l -c '' @ [CHR 0x22] @ ''which node'' @ [CHR 0x22])) = None
   \<and> err (exec_probe early_exit_host
         (''/bin/bash -l -c '' @ [CHR 0x22] @ ''which node'' @ [CHR 0x22])) = []"
  by code_simp

section \<open>Command construction\<close>

lemma commandToExecute_shape:
  "commandToExecute h raw =
      (case SHELL h of None \<Rightarrow> ''/bin/zsh'' | Some s \<Rightarrow> if s = [] then ''/bin/zsh'' else s)
         @ '' -l -c '' @ [CHR 0x22] @ escape_quotes raw @ [CHR 0x22]"
  by (simp add: commandToExecute_def defaultShellPath_def opt_or_else_def or_else_def
        split: option.splits)

lemma runCode_spawns:
  assumes "dir_exists w \<or> mkdirSync_throws h = None"
      and "writeFileSync_throws h = None"
      and "switch_language h language code = Inr \<lparr>filePath = fp, rawCommand = raw, cleanupFiles = cl, executableCommand = exe\<rparr>"
  shows "\<exists>w'. world_of (runCode h language code w) = Some w'
     \<and> written_files (calls w') = written_files (calls w) @ [(fp, code)]
     \<and> exec_commands (calls w') = exec_commands (calls w) @
          [(case SHELL h of None \<Rightarrow> ''/bin/zsh'' | Some s \<Rightarrow> if s = [] then ''/bin/zsh'' else s)
             @ '' -l -c '' @ [CHR 0x22] @ escape_quotes raw @ [CHR 0x22]]"
  using runCode_calls [OF assms(1,3)] assms(2) by (simp add: commandToExecute_shape)

lemma switch_language_javascript:
  assumes "toLowerCase language = ''javascript''"
  shows "switch_language h language code =
     Inr \<lparr>filePath = tempDir h @ ''/'' @ uuidv4 h @ ''.js'',
          rawCommand = ''node '' @ tempDir h @ ''/'' @ uuidv4 h @ ''.js'',
          cleanupFiles = [tempDir h @ ''/'' @ uuidv4 h @ ''.js''],
          executableCommand = ''node''\<rparr>"
  using assms by (simp add: switch_language_def Let_def path_join_def)

lemma switch_language_python:
  assumes "toLowerCase language = ''python''"
  shows "switch_language h language code =
     Inr \<lparr>filePath = tempDir h @ ''/'' @ uuidv4 h @ ''.py'',
          rawCommand = ''python3 '' @ tempDir h @ ''/'' @ uuidv4 h @ ''.py'',
          cleanupFiles = [tempDir h @ ''/'' @ uuidv4 h @ ''.py''],
          executableCommand = ''python3''\<rparr>"
  using assms by (simp add: switch_language_def Let_def path_join_def)

lemma switch_language_go:
  assumes "toLowerCase language = ''go''"
  shows "switch_language h language code =
     Inr \<lparr>filePath = tempDir h @ ''/'' @ uuidv4 h @ ''.go'',
          rawCommand = ''go build -o '' @ tempDir h @ ''/'' @ uuidv4 h @ '' ''
             @ tempDir h @ ''/'' @ uuidv4 h @ ''.go'' @ '' && '' @ tempDir h @ ''/'' @ uuidv4 h,
          cleanupFiles = [tempDir h @ ''/'' @ uuidv4 h @ ''.go'', tempDir h @ ''/'' @ uuidv4 h],
          executableCommand = ''go''\<rparr>"
  using assms by (simp add: switch_language_def Let_def path_join_def)

lemma switch_language_java_match:
  assumes "toLowerCase language = ''java''" and "class_name_match code = Some className"
  shows "switch_language h language code =
     Inr \<lparr>filePath = tempDir h @ ''/'' @ className @ ''.java'',
          rawCommand = ''javac '' @ tempDir h @ ''/'' @ className @ ''.java'' @ '' -d ''
             @ tempDir h @ '' && java -cp '' @ tempDir h @ '' '' @ className,
          cleanupFiles = [tempDir h @ ''/'' @ className @ ''.java'',
                          tempDir h @ ''/'' @ className @ ''.class''],
          executableCommand = ''java''\<rparr>"
  using assms by (simp add: switch_language_java)

text \<open>
  C7. A call for a supported language (for Java: with a source in which the pattern
  matches), for which the scratch directory is there and the write succeeds, makes the
  plan stated below, writes the source file and spawns exactly one command: the shell
  \<open>sh\<close> (\<^verbatim>\<open>SHELL\<close> of the environment, \<^verbatim>\<open>/bin/zsh\<close> when it is unset or empty), then
  \<^verbatim>\<open> -l -c \<close>, then the raw command between double quotes, escaped. The raw command is
  one run command over the source file for JavaScript and Python, and a compile step
  and a run step joined by \<^verbatim>\<open>&&\<close> for Go and Java, whose compiled artifact is tracked
  for cleanup next to the source file. In the escaped command every double quote is
  preceded by a backslash, and nothing but backslashes was added.
\<close>

theorem command_construction:
  assumes "dir_exists w \<or> mkdirSync_throws h = None"
      and "writeFileSync_throws h = None"
      and "sh = (case SHELL h of None \<Rightarrow> ''/bin/zsh'' | Some s \<Rightarrow> if s = [] then ''/bin/zsh'' else s)"
      and "base = tempDir h @ ''/'' @ uuidv4 h"
  shows "(toLowerCase language = ''javascript'' \<longrightarrow>
            switch_language h language code =
              Inr \<lparr>filePath = base @ ''.js'', rawCommand = ''node '' @ base @ ''.js'',
                   cleanupFiles = [base @ ''.js''], executableCommand = ''node''\<rparr>
            \<and> (\<exists>w'. world_of (runCode h language code w) = Some w'
                 \<and> written_files (calls w') = written_files (calls w) @ [(base @ ''.js'', code)]
                 \<and> exec_commands (calls w') = exec_commands (calls w) @
                      [sh @ '' -l -c '' @ [CHR 0x22] @ escape_quotes (''node '' @ base @ ''.js'')
                          @ [CHR 0x22]]))
     \<and> (toLowerCase language = ''python'' \<longrightarrow>
            switch_language h language code =
              Inr \<lparr>filePath = base @ ''.py'', rawCommand = ''python3 '' @ base @ ''.py'',
                   cleanupFiles = [base @ ''.py''], executableCommand = ''python3''\<rparr>
            \<and> (\<exists>w'. world_of (runCode h language code w) = Some w'
                 \<and> written_files (calls w') = written_files (calls w) @ [(base @ ''.py'', code)]
                 \<and> exec_commands (calls w') = exec_commands (calls w) @
                      [sh @ '' -l -c '' @ [CHR 0x22] @ escape_quotes (''python3 '' @ base @ ''.py'')
                          @ [CHR 0x22]]))
     \<and> (toLowerCase language = ''go'' \<longrightarrow>
            switch_language h language code =
              Inr \<lparr>filePath = base @ ''.go'',
                   rawCommand = ''go build -o '' @ base @ '' '' @ base @ ''.go'' @ '' && '' @ base,
                   cleanupFiles = [base @ ''.go'', base], executableCommand = ''go''\<rparr>
            \<and> (\<exists>w'. world_of (runCode h language code w) = Some w'
                 \<and> written_files (calls w') = written_files (calls w) @ [(base @ ''.go'', code)]
                 \<and> exec_commands (calls w') = exec_commands (calls w) @
                      [sh @ '' -l -c '' @ [CHR 0x22]
                          @ escape_quotes (''go build -o '' @ base @ '' '' @ base @ ''.go'' @ '' && '' @ base)
                          @ [CHR 0x22]]))
     \<and> (\<forall>className. toLowerCase language = ''java'' \<and> class_name_match code = Some className \<longrightarrow>
            switch_language h language code =
              Inr \<lparr>filePath = tempDir h @ ''/'' @ className @ ''.java'',
                   rawCommand = ''javac '' @ tempDir h @ ''/'' @ className @ ''.java'' @ '' -d ''
                      @ tempDir h @ '' && java -cp '' @ tempDir h @ '' '' @ className,
                   cleanupFiles = [tempDir h @ ''/'' @ className @ ''.java'',
                                   tempDir h @ ''/'' @ className @ ''.class''],
                   executableCommand = ''java''\<rparr>
            \<and> (\<exists>w'. world_of (runCode h language code w) = Some w'
                 \<and> written_files (calls w') =
                      written_files (calls w) @ [(tempDir h @ ''/'' @ className @ ''.java'', code)]
                 \<and> exec_commands (calls w') = exec_commands (calls w) @
                      [sh @ '' -l -c '' @ [CHR 0x22]
                          @ escape_quotes (''javac '' @ tempDir h @ ''/'' @ className @ ''.java'' @ '' -d ''
                               @ tempDir h @ '' && java -cp '' @ tempDir h @ '' '' @ className)
                          @ [CHR 0x22]]))
     \<and> (\<forall>raw i. i < length (escape_quotes raw) \<and> escape_quotes raw ! i = CHR 0x22 \<longrightarrow>
            0 < i \<and> escape_quotes raw ! (i - 1) = CHR 0x5C)
     \<and> (\<forall>raw. filter (\<lambda>c. c \<noteq> CHR 0x5C) (escape_quotes raw) = filter (\<lambda>c. c \<noteq> CHR 0x5C) raw)"
proof (intro conjI impI allI)
  assume l: "toLowerCase language = ''javascript''"
  from switch_language_javascript [OF l, of h code] assms(4)
  show sw: "switch_language h language code =
              Inr \<lparr>filePath = base @ ''.js'', rawCommand = ''node '' @ base @ ''.js'',
                   cleanupFiles = [base @ ''.js''], executableCommand = ''node''\<rparr>"
    by simp
  from runCode_spawns [OF assms(1,2) sw] assms(3)
  show "\<exists>w'. world_of (runCode h language code w) = Some w'
                 \<and> written_files (calls w') = written_files (calls w) @ [(base @ ''.js'', code)]
                 \<and> exec_commands (calls w') = exec_commands (calls w) @
                      [sh @ '' -l -c '' @ [CHR 0x22] @ escape_quotes (''node '' @ base @ ''.js'')
                          @ [CHR 0x22]]"
    by simp
next
  assume l: "toLowerCase language = ''python''"
  from switch_language_python [OF l, of h code] assms(4)
  show sw: "switch_language h language code =
              Inr \<lparr>filePath = base @ ''.py'', rawCommand = ''python3 '' @ base @ ''.py'',
                   cleanupFiles = [base @ ''.py''], executableCommand = ''python3''\<rparr>"
    by simp
  from runCode_spawns [OF assms(1,2) sw] assms(3)
  show "\<exists>w'. world_of (runCode h language code w) = Some w'
                 \<and> written_files (calls w') = written_files (calls w) @ [(base @ ''.py'', code)]
                 \<and> exec_commands (calls w') = exec_commands (calls w) @
                      [sh @ '' -l -c '' @ [CHR 0x22] @ escape_quotes (''python3 '' @ base @ ''.py'')
                          @ [CHR 0x22]]"
    by simp
next
  assume l: "toLowerCase language = ''go''"
  from switch_language_go [OF l, of h code] assms(4)
  show sw: "switch_language h language code =
              Inr \<lparr>filePath = base @ ''.go'',
                   rawCommand = ''go build -o '' @ base @ '' '' @ base @ ''.go'' @ '' && '' @ base,
                   cleanupFiles = [base @ ''.go'', base], executableCommand = ''go''\<rparr>"
    by simp
  from runCode_spawns [OF assms(1,2) sw] assms(3)
  show "\<exists>w'. world_of (runCode h language code w) = Some w'
                 \<and> written_files (calls w') = written_files (calls w) @ [(base @ ''.go'', code)]
                 \<and> exec_commands (calls w') = exec_commands (calls w) @
                      [sh @ '' -l -c '' @ [CHR 0x22]
                          @ escape_quotes (''go build -o '' @ base @ '' '' @ base @ ''.go'' @ '' && '' @ base)
                          @ [CHR 0x22]]"
    by simp
next
  fix className
  assume l: "toLowerCase language = ''java'' \<and> class_name_match code = Some className"
  then show sw: "switch_language h language code =
              Inr \<lparr>filePath = tempDir h @ ''/'' @ className @ ''.java'',
                   rawCommand = ''javac '' @ tempDir h @ ''/'' @ className @ ''.java'' @ '' -d ''
                      @ tempDir h @ '' && java -cp '' @ tempDir h @ '' '' @ className,
                   cleanupFiles = [tempDir h @ ''/'' @ className @ ''.java'',
                                   tempDir h @ ''/'' @ className @ ''.class''],
                   executableCommand = ''java''\<rparr>"
    using switch_language_java_match [of language code className h] by blast
  from runCode_spawns [OF assms(1,2) sw] assms(3)
  show "\<exists>w'. world_of (runCode h language code w) = Some w'
                 \<and> written_files (calls w') =
                      written_files (calls w) @ [(tempDir h @ ''/'' @ className @ ''.java'', code)]
                 \<and> exec_commands (calls w') = exec_commands (calls w) @
                      [sh @ '' -l -c '' @ [CHR 0x22]
                          @ escape_quotes (''javac '' @ tempDir h @ ''/'' @ className @ ''.java'' @ '' -d ''
                               @ tempDir h @ '' && java -cp '' @ tempDir h @ '' '' @ className)
                          @ [CHR 0x22]]"
    by simp
next
  fix raw i
  assume "i < length (escape_quotes raw) \<and> escape_quotes raw ! i = CHR 0x22"
  then show "0 < i" "escape_quotes raw ! (i - 1) = CHR 0x5C"
    using escape_quotes_preceded [of i raw] by blast+
next
  fix raw
  show "filter (\<lambda>c. c \<noteq> CHR 0x5C) (escape_quotes raw) = filter (\<lambda>c. c \<noteq> CHR 0x5C) raw"
    by (rule escape_quotes_only_adds_backslashes)
qed

theorem command_construction_witness:
  "(dir_exists no_dir \<or> mkdirSync_throws bash_host = None)
   \<and> writeFileSync_throws bash_host = None
   \<and> toLowerCase ''javascript'' = ''javascript''
   \<and> (\<exists>w'. world_of (runCode bash_host ''javascript'' ''console.log(1)'' no_dir) = Some w'
        \<and> exec_commands (calls w') =
            [''/bin/bash -l -c '' @ [CHR 0x22]
               @ ''node /ext/temp/3f2b8c1e-5a4d-4e6f-9a7b-1c2d3e4f5a6b.js'' @ [CHR 0x22]])
   \<and> toLowerCase ''python'' = ''python''
   \<and> (\<exists>w'. world_of (runCode bash_host ''python'' ''print(1)'' no_dir) = Some w'
        \<and> exec_commands (calls w') =
            [''/bin/bash -l -c '' @ [CHR 0x22]
               @ ''python3 /ext/temp/3f2b8c1e-5a4d-4e6f-9a7b-1c2d3e4f5a6b.py'' @ [CHR 0x22]])
   \<and> toLowerCase ''go'' = ''go''
   \<and> switch_language bash_host ''go'' ''package main'' = Inr go_plan
   \<and> (\<exists>w'. world_of (runCode bash_host ''go'' ''package main'' no_dir) = Some w'
        \<and> exec_commands (calls w') =
            [''/bin/bash -l -c '' @ [CHR 0x22]
               @ ''go build -o /ext/temp/3f2b8c1e-5a4d-4e6f-9a7b-1c2d3e4f5a6b /ext/temp/3f2b8c1e-5a4d-4e6f-9a7b-1c2d3e4f5a6b.go && /ext/temp/3f2b8c1e-5a4d-4e6f-9a7b-1c2d3e4f5a6b''
               @ [CHR 0x22]])
   \<and> toLowerCase ''java'' = ''java'' \<and> class_name_match ''public class Main {}'' = Some ''Main''
   \<and> switch_language bash_host ''java'' ''public class Main {}'' = Inr java_plan
   \<and> (\<exists>w'. world_of (runCode bash_host ''java'' ''public class Main {}'' no_dir) = Some w'
        \<and> exec_commands (calls w') =
            [''/bin/bash -l -c '' @ [CHR 0x22]
               @ ''javac /ext/temp/Main.java -d /ext/temp && java -cp /ext/temp Main''
               @ [CHR 0x22]])"
proof -
  have a: "dir_exists no_dir \<or> mkdirSync_throws bash_host = None"
    by (simp add: bash_host_def)
  have b: "writeFileSync_throws bash_host = None"
    by (simp add: bash_host_def)
  note js = command_construction [OF a b refl refl, of "''javascript''" "''console.log(1)''",
    THEN conjunct1, THEN mp, OF lower_javascript, THEN conjunct2]
  then have c1: "\<exists>w'. world_of (runCode bash_host ''javascript'' ''console.log(1)'' no_dir) = Some w'
        \<and> exec_commands (calls w') =
            [''/bin/bash -l -c '' @ [CHR 0x22]
               @ ''node /ext/temp/3f2b8c1e-5a4d-4e6f-9a7b-1c2d3e4f5a6b.js'' @ [CHR 0x22]]"
    by (auto simp: escape_quotes_def bash_host_def no_dir_def)
  note py = command_construction [OF a b refl refl, of "''python''" "''print(1)''",
    THEN conjunct2, THEN conjunct1, THEN mp, OF lower_python, THEN conjunct2]
  then have c2: "\<exists>w'. world_of (runCode bash_host ''python'' ''print(1)'' no_dir) = Some w'
        \<and> exec_commands (calls w') =
            [''/bin/bash -l -c '' @ [CHR 0x22]
               @ ''python3 /ext/temp/3f2b8c1e-5a4d-4e6f-9a7b-1c2d3e4f5a6b.py'' @ [CHR 0x22]]"
    by (auto simp: escape_quotes_def bash_host_def no_dir_def)
  note go = command_construction [OF a b refl refl, of "''go''" "''package main''",
    THEN conjunct2, THEN conjunct2, THEN conjunct1, THEN mp, OF lower_go]
  from go [THEN conjunct1] have s3: "switch_language bash_host ''go'' ''package main'' = Inr go_plan"
    by (simp add: bash_host_def go_plan_def)
  from go [THEN conjunct2] have c3: "\<exists>w'. world_of (runCode bash_host ''go'' ''package main'' no_dir) = Some w'
        \<and> exec_commands (calls w') =
            [''/bin/bash -l -c '' @ [CHR 0x22]
               @ ''go build -o /ext/temp/3f2b8c1e-5a4d-4e6f-9a7b-1c2d3e4f5a6b /ext/temp/3f2b8c1e-5a4d-4e6f-9a7b-1c2d3e4f5a6b.go && /ext/temp/3f2b8c1e-5a4d-4e6f-9a7b-1c2d3e4f5a6b''
               @ [CHR 0x22]]"
    by (auto simp: escape_quotes_def bash_host_def no_dir_def)
  note java = command_construction [OF a b refl refl, of "''java''" "''public class Main {}''",
    THEN conjunct2, THEN conjunct2, THEN conjunct2, THEN conjunct1, rule_format,
    OF conjI [OF lower_java match_main]]
  from java [THEN conjunct1] have s4: "switch_language bash_host ''java'' ''public class Main {}'' = Inr java_plan"
    by (simp add: bash_host_def java_plan_def)
  from java [THEN conjunct2] have c4: "\<exists>w'. world_of (runCode bash_host ''java'' ''public class Main {}'' no_dir) = Some w'
        \<and> exec_commands (calls w') =
            [''/bin/bash -l -c '' @ [CHR 0x22]
               @ ''javac /ext/temp/Main.java -d /ext/temp && java -cp /ext/temp Main''
               @ [CHR 0x22]]"
    by (auto simp: escape_quotes_def bash_host_def no_dir_def)
  from a b lower_javascript c1 lower_python c2 lower_go s3 c3 lower_java match_main s4 c4
  show ?thesis by blast
qed

section \<open>Classification of failures\<close>

text \<open>
  C8 says that a failure whose text contains \<^verbatim>\<open>command not found\<close> is replaced by a
  guidance text that names the missing command. On a host on which \<^verbatim>\<open>java\<close> is
  installed and \<^verbatim>\<open>javac\<close> is not, the code does otherwise: the compile step of the
  Java command fails, the text of the failure says that \<^verbatim>\<open>javac\<close> was not found, and
  the result's error is the guidance text for \<^verbatim>\<open>java\<close>, which names \<^verbatim>\<open>java\<close>, asks to
  run \<^verbatim>\<open>which java\<close>, and does not mention \<^verbatim>\<open>javac\<close>, the command that is missing.
\<close>

theorem missing_javac_reported_as_java:
  "switch_language no_javac_host ''java'' ''public class Main {}'' = Inr java_plan
   \<and> exec_run no_javac_host (commandToExecute no_javac_host (rawCommand java_plan))
        (True, {filePath java_plan})
       = Some (\<lparr>ended = Exited 127,
                cb_error = Some (''Command failed: /bin/zsh -l -c '' @ [CHR 0x22]
                   @ ''javac /ext/temp/Main.java -d /ext/temp && java -cp /ext/temp Main''
                   @ [CHR 0x22, CHR 0x0A] @ ''zsh:1: command not found: javac'' @ [CHR 0x0A]),
                out = [], err = ''zsh:1: command not found: javac'' @ [CHR 0x0A]\<rparr>,
               True, {filePath java_plan})
   \<and> returned_result (runCode no_javac_host ''java'' ''public class Main {}'' empty_dir)
       = Some \<lparr>stdout = [], stderr = ''zsh:1: command not found: javac'' @ [CHR 0x0A],
               error = Some (guidance ''java''), command = []\<rparr>
   \<and> str_includes (guidance ''java'') ''which java''
   \<and> \<not> str_includes (guidance ''java'') ''javac''"
  by code_simp

end
